theory Spec2Isabelle
  imports Main
begin

section \<open>JSON values and the Python operations the code applies to them\<close>

text \<open>
  Every value the three modules exchange with the outside is what \<^verbatim>\<open>response.json()\<close>
  returns or what is passed as \<^verbatim>\<open>json=\<close>: a Python value built from None, bool, int,
  str, list and dict. Numbers are restricted to integers (no float arises in the code paths
  below). A dict is an association list; lookup takes the first binding of a key.
\<close>

datatype json =
    JNull
  | JBool bool
  | JNum int
  | JStr string
  | JArr "json list"
  | JObj "(string \<times> json) list"

text \<open>Exceptions: the class that decides which \<^verbatim>\<open>except\<close> clause catches it, and \<^verbatim>\<open>str(e)\<close>.
  \<open>RequestException\<close> stands for \<^verbatim>\<open>requests.exceptions.RequestException\<close> and all of its
  subclasses (Timeout, ConnectionError, HTTPError, ...). Every class below derives from
  \<^verbatim>\<open>Exception\<close>.\<close>

datatype exc_class =
    RequestException
  | ValueError
  | AttributeError
  | TypeError
  | KeyError
  | IndexError
  | EOFError
  | RecursionError
  | OtherException

datatype exc = Exc exc_class string

fun exc_class_of :: "exc \<Rightarrow> exc_class" where
  "exc_class_of (Exc c m) = c"

fun str_exc :: "exc \<Rightarrow> string" where
  "str_exc (Exc c m) = m"

definition is_request_exception :: "exc \<Rightarrow> bool" where
  "is_request_exception e = (exc_class_of e = RequestException)"

definition sq :: "string \<Rightarrow> string" where
  "sq s = CHR 0x27 # s @ [CHR 0x27]"

definition dq :: "string \<Rightarrow> string" where
  "dq s = CHR 0x22 # s @ [CHR 0x22]"

fun py_type_name :: "json \<Rightarrow> string" where
  "py_type_name JNull = ''NoneType''"
| "py_type_name (JBool b) = ''bool''"
| "py_type_name (JNum n) = ''int''"
| "py_type_name (JStr s) = ''str''"
| "py_type_name (JArr xs) = ''list''"
| "py_type_name (JObj kvs) = ''dict''"

text \<open>Truth value of an object, as \<^verbatim>\<open>if x\<close> and \<^verbatim>\<open>not x\<close> take it.\<close>

fun py_truthy :: "json \<Rightarrow> bool" where
  "py_truthy JNull = False"
| "py_truthy (JBool b) = b"
| "py_truthy (JNum n) = (n \<noteq> 0)"
| "py_truthy (JStr s) = (s \<noteq> [])"
| "py_truthy (JArr xs) = (xs \<noteq> [])"
| "py_truthy (JObj kvs) = (kvs \<noteq> [])"

text \<open>\<^verbatim>\<open>d.get(key, default)\<close>: only a dict has the method.\<close>

fun dict_get :: "json \<Rightarrow> string \<Rightarrow> json \<Rightarrow> exc + json" where
  "dict_get (JObj kvs) k dflt = Inr (case map_of kvs k of Some v \<Rightarrow> v | None \<Rightarrow> dflt)"
| "dict_get v k dflt =
     Inl (Exc AttributeError (sq (py_type_name v) @ '' object has no attribute '' @ sq ''get''))"

fun starts_with :: "string \<Rightarrow> string \<Rightarrow> bool" where
  "starts_with s [] = True"
| "starts_with [] (p # ps) = False"
| "starts_with (c # cs) (p # ps) = (c = p \<and> starts_with cs ps)"

fun has_substring :: "string \<Rightarrow> string \<Rightarrow> bool" where
  "has_substring [] p = (p = [])"
| "has_substring (c # cs) p = (starts_with (c # cs) p \<or> has_substring cs p)"

text \<open>\<^verbatim>\<open>key in v\<close> for a str key: key membership in a dict, element membership in a list,
  substring test in a str, TypeError elsewhere.\<close>

fun py_contains :: "json \<Rightarrow> string \<Rightarrow> exc + bool" where
  "py_contains (JObj kvs) k = Inr (map_of kvs k \<noteq> None)"
| "py_contains (JArr xs) k = Inr (List.member xs (JStr k))"
| "py_contains (JStr s) k = Inr (has_substring s k)"
| "py_contains v k =
     Inl (Exc TypeError (''argument of type '' @ sq (py_type_name v) @ '' is not iterable''))"

text \<open>The elements a \<^verbatim>\<open>for\<close> loop visits.\<close>

fun py_iter :: "json \<Rightarrow> exc + json list" where
  "py_iter (JArr xs) = Inr xs"
| "py_iter (JStr s) = Inr (map (\<lambda>c. JStr [c]) s)"
| "py_iter (JObj kvs) = Inr (map (\<lambda>kv. JStr (fst kv)) kvs)"
| "py_iter v = Inl (Exc TypeError (sq (py_type_name v) @ '' object is not iterable''))"

fun py_len :: "json \<Rightarrow> exc + nat" where
  "py_len (JArr xs) = Inr (length xs)"
| "py_len (JStr s) = Inr (length s)"
| "py_len (JObj kvs) = Inr (length kvs)"
| "py_len v = Inl (Exc TypeError (''object of type '' @ sq (py_type_name v) @ '' has no len()''))"

text \<open>\<^verbatim>\<open>v[0]\<close>.\<close>

fun py_index0 :: "json \<Rightarrow> exc + json" where
  "py_index0 (JArr []) = Inl (Exc IndexError ''list index out of range'')"
| "py_index0 (JArr (x # xs)) = Inr x"
| "py_index0 (JStr []) = Inl (Exc IndexError ''string index out of range'')"
| "py_index0 (JStr (c # cs)) = Inr (JStr [c])"
| "py_index0 (JObj kvs) = Inl (Exc KeyError ''0'')"
| "py_index0 v = Inl (Exc TypeError (sq (py_type_name v) @ '' object is not subscriptable''))"

fun py_int_of :: "json \<Rightarrow> int option" where
  "py_int_of (JNum n) = Some n"
| "py_int_of (JBool b) = Some (if b then 1 else 0)"
| "py_int_of v = None"

text \<open>\<^verbatim>\<open>a + b\<close>.\<close>

definition py_add :: "json \<Rightarrow> json \<Rightarrow> exc + json" where
  "py_add a b =
     (case (a, b) of
        (JStr s, JStr t) \<Rightarrow> Inr (JStr (s @ t))
      | (JStr s, _) \<Rightarrow>
          Inl (Exc TypeError (''can only concatenate str (not '' @ dq (py_type_name b) @ '') to str''))
      | (JArr xs, JArr ys) \<Rightarrow> Inr (JArr (xs @ ys))
      | (JArr xs, _) \<Rightarrow>
          Inl (Exc TypeError (''can only concatenate list (not '' @ dq (py_type_name b) @ '') to list''))
      | _ \<Rightarrow>
          (case (py_int_of a, py_int_of b) of
             (Some m, Some n) \<Rightarrow> Inr (JNum (m + n))
           | _ \<Rightarrow>
               Inl (Exc TypeError (''unsupported operand type(s) for +: '' @ sq (py_type_name a)
                      @ '' and '' @ sq (py_type_name b)))))"

text \<open>Sequencing of a computation that may raise.\<close>

definition bind_exc :: "exc + 'a \<Rightarrow> ('a \<Rightarrow> exc + 'b) \<Rightarrow> exc + 'b" where
  "bind_exc m f = (case m of Inl e \<Rightarrow> Inl e | Inr v \<Rightarrow> f v)"

section \<open>The outside world: HTTP exchanges, sleeps, and the trace of what was done\<close>

text \<open>
  A completed HTTP exchange gives a response: its status code, the text that
  \<^verbatim>\<open>raise_for_status()\<close> puts in the HTTPError it builds (status, reason and URL), and what
  \<^verbatim>\<open>response.json()\<close> does: return the decoded body, or raise (a body that is not JSON;
  the class of that exception depends on the version of the requests library, so the
  world supplies it). An exchange that does not complete raises (timeout, connection error).
\<close>

record http_response =
  status_code :: nat
  raise_text :: string
  json_body :: "exc + json"

datatype outcome = Raised exc | Returned http_response

text \<open>\<^verbatim>\<open>Response.raise_for_status\<close> of the requests library: HTTPError, a
  RequestException, exactly for the 4xx and 5xx codes.\<close>

definition http_error_status :: "nat \<Rightarrow> bool" where
  "http_error_status s = (400 \<le> s \<and> s < 600)"

definition raise_for_status :: "http_response \<Rightarrow> exc + unit" where
  "raise_for_status r =
     (if http_error_status (status_code r) then Inl (Exc RequestException (raise_text r))
      else Inr ())"

text \<open>
  What a run does to the outside, in order. \<open>Dispatch\<close> is not an effect: it marks the
  entry into \<^verbatim>\<open>ClaudeClient._handle_tool_call\<close> with its argument, so that invocations of
  the tool dispatcher can be counted. Console output is not recorded.
\<close>

datatype event =
    Health_get
  | Tool_post json
  | Llm_post json
  | Ddg_get json
  | Sleep nat
  | Dispatch json

fun is_health :: "event \<Rightarrow> bool" where
  "is_health Health_get = True"
| "is_health e = False"

fun is_tool_post :: "event \<Rightarrow> bool" where
  "is_tool_post (Tool_post b) = True"
| "is_tool_post e = False"

fun is_llm_post :: "event \<Rightarrow> bool" where
  "is_llm_post (Llm_post b) = True"
| "is_llm_post e = False"

fun is_ddg_get :: "event \<Rightarrow> bool" where
  "is_ddg_get (Ddg_get b) = True"
| "is_ddg_get e = False"

fun is_dispatch :: "event \<Rightarrow> bool" where
  "is_dispatch (Dispatch b) = True"
| "is_dispatch e = False"

fun is_sleep :: "event \<Rightarrow> bool" where
  "is_sleep (Sleep n) = True"
| "is_sleep e = False"

definition is_network :: "event \<Rightarrow> bool" where
  "is_network e = (is_health e \<or> is_tool_post e \<or> is_llm_post e \<or> is_ddg_get e)"

definition calls :: "(event \<Rightarrow> bool) \<Rightarrow> event list \<Rightarrow> nat" where
  "calls p tr = length (filter p tr)"

text \<open>
  The world answers the n-th request to each service with a fixed outcome. Any
  deterministic run against real services is a run against such a world.
\<close>

record world =
  health :: "nat \<Rightarrow> outcome"
  tool :: "nat \<Rightarrow> outcome"
  llm :: "nat \<Rightarrow> outcome"
  ddg :: "nat \<Rightarrow> outcome"

definition get_health :: "world \<Rightarrow> event list \<Rightarrow> outcome \<times> event list" where
  "get_health w tr = (health w (calls is_health tr), tr @ [Health_get])"

definition post_tool_call :: "world \<Rightarrow> json \<Rightarrow> event list \<Rightarrow> outcome \<times> event list" where
  "post_tool_call w body tr = (tool w (calls is_tool_post tr), tr @ [Tool_post body])"

definition post_llm :: "world \<Rightarrow> json \<Rightarrow> event list \<Rightarrow> outcome \<times> event list" where
  "post_llm w payload tr = (llm w (calls is_llm_post tr), tr @ [Llm_post payload])"

definition get_ddg :: "world \<Rightarrow> json \<Rightarrow> event list \<Rightarrow> outcome \<times> event list" where
  "get_ddg w params tr = (ddg w (calls is_ddg_get tr), tr @ [Ddg_get params])"

section \<open>mcp_integration.py\<close>

text \<open>\<^verbatim>\<open>DDGRequest\<close> and its \<^verbatim>\<open>to_dict\<close>. The annotation of \<^verbatim>\<open>q\<close> is \<^verbatim>\<open>str\<close>, but
  nothing checks it: the field holds whatever the caller passes.\<close>

record ddg_request =
  q :: json
  format :: string
  no_html :: int
  skip_disambig :: int

definition DDGRequest :: "json \<Rightarrow> ddg_request" where
  "DDGRequest query = \<lparr>q = query, format = ''json'', no_html = 1, skip_disambig = 1\<rparr>"

definition to_dict :: "ddg_request \<Rightarrow> json" where
  "to_dict r = JObj [(''q'', q r), (''format'', JStr (format r)),
                     (''no_html'', JNum (no_html r)), (''skip_disambig'', JNum (skip_disambig r))]"

text \<open>\<^verbatim>\<open>WebResult\<close>: the fields hold whatever the provider's JSON holds.\<close>

record web_result =
  title :: json
  url :: json
  description :: json

definition asdict :: "web_result \<Rightarrow> json" where
  "asdict r = JObj [(''title'', title r), (''url'', url r), (''description'', description r)]"

text \<open>The body of the \<^verbatim>\<open>try\<close> in \<^verbatim>\<open>MCPClient.search\<close>, after the GET.\<close>

definition search_parse :: "outcome \<Rightarrow> exc + web_result list" where
  "search_parse out =
     (case out of
        Raised e \<Rightarrow> Inl e
      | Returned response \<Rightarrow>
          bind_exc (raise_for_status response) (\<lambda>_.
          bind_exc (json_body response) (\<lambda>data.
          bind_exc (dict_get data ''Abstract'' JNull) (\<lambda>abstract.
            if py_truthy abstract then
              bind_exc (dict_get data ''Heading'' (JStr [])) (\<lambda>h.
              bind_exc (dict_get data ''AbstractURL'' (JStr [])) (\<lambda>u.
              bind_exc (dict_get data ''Abstract'' (JStr [])) (\<lambda>d.
                Inr [\<lparr>title = h, url = u, description = d\<rparr>])))
            else Inr []))))"

text \<open>\<^verbatim>\<open>MCPClient.search(query, count)\<close>: \<^verbatim>\<open>except Exception\<close> turns every failure into the
  empty list. The result is \<open>Inr\<close> when the call returns, \<open>Inl\<close> when it raises.\<close>

definition search :: "world \<Rightarrow> json \<Rightarrow> int \<Rightarrow> event list \<Rightarrow> (exc + web_result list) \<times> event list" where
  "search w query count tr =
     (let request = DDGRequest query;
          (out, tr1) = get_ddg w (to_dict request) tr
      in (case search_parse out of
            Inl e \<Rightarrow> (Inr [], tr1)
          | Inr results \<Rightarrow> (Inr results, tr1)))"

definition error_dict :: "string \<Rightarrow> json" where
  "error_dict m = JObj [(''error'', JStr m)]"

text \<open>\<^verbatim>\<open>handle_claude_tool_call(tool_params)\<close>. Building the bridge contacts no service;
  \<^verbatim>\<open>search\<close> is called with its default count of 10.\<close>

definition handle_claude_tool_call :: "world \<Rightarrow> json \<Rightarrow> event list \<Rightarrow> (exc + json) \<times> event list" where
  "handle_claude_tool_call w tool_params tr =
     (case dict_get tool_params ''query'' (JStr []) of
        Inl e \<Rightarrow> (Inl e, tr)
      | Inr query \<Rightarrow>
          if \<not> py_truthy query then (Inr (error_dict ''no query''), tr)
          else
            (case search w query 10 tr of
               (Inl e, tr1) \<Rightarrow> (Inl e, tr1)
             | (Inr results, tr1) \<Rightarrow>
                 (Inr (JObj [(''results'', JArr (map asdict results))]), tr1)))"

section \<open>claude_mcp_client.py\<close>

text \<open>The fields of \<^verbatim>\<open>ClaudeClient\<close> that the methods read (the headers carry the key).\<close>

record config =
  api_key :: string
  model :: string

definition tools :: json where
  "tools = JArr [JObj [
     (''name'', JStr ''fetch_web_content''),
     (''description'', JStr ''Retrieves info from website based on user queries''),
     (''input_schema'', JObj [
        (''type'', JStr ''object''),
        (''properties'', JObj [
           (''query'', JObj [
              (''type'', JStr ''string''),
              (''description'',
                 JStr ''the search query or website to look up information about'')])]),
        (''required'', JArr [JStr ''query''])])]]"

text \<open>\<^verbatim>\<open>ClaudeClient._check_mcp_server\<close>: only a RequestException is caught.\<close>

definition ClaudeClient_check_mcp_server :: "world \<Rightarrow> event list \<Rightarrow> (exc + bool) \<times> event list" where
  "ClaudeClient_check_mcp_server w tr =
     (let out = fst (get_health w tr); tr1 = snd (get_health w tr)
      in (case out of
            Returned response \<Rightarrow> (Inr (status_code response = 200), tr1)
          | Raised e \<Rightarrow> if is_request_exception e then (Inr False, tr1) else (Inl e, tr1)))"

definition max_retries :: nat where
  "max_retries = 3"

text \<open>The body of the \<^verbatim>\<open>try\<close> in the retry loop, after the POST.\<close>

definition tool_call_attempt :: "outcome \<Rightarrow> exc + json" where
  "tool_call_attempt out =
     (case out of
        Raised e \<Rightarrow> Inl e
      | Returned response \<Rightarrow> bind_exc (raise_for_status response) (\<lambda>_. json_body response))"

text \<open>The \<^verbatim>\<open>while retry_count < max_retries\<close> loop of \<^verbatim>\<open>_handle_tool_call\<close>, with the
  \<^verbatim>\<open>return\<close> that follows it. An exception that is not a RequestException leaves the
  method.\<close>

function retry_loop :: "world \<Rightarrow> json \<Rightarrow> json \<Rightarrow> nat \<Rightarrow> event list \<Rightarrow> (exc + json) \<times> event list" where
  "retry_loop w tool_name tool_params retry_count tr =
     (if retry_count < max_retries then
        (let body = JObj [(''name'', tool_name), (''parameters'', tool_params)];
             out = fst (post_tool_call w body tr);
             tr1 = snd (post_tool_call w body tr)
         in (case tool_call_attempt out of
               Inr v \<Rightarrow> (Inr v, tr1)
             | Inl e \<Rightarrow>
                 if is_request_exception e then
                   (if retry_count + 1 < max_retries then
                      retry_loop w tool_name tool_params (retry_count + 1)
                        (tr1 @ [Sleep (2 ^ (retry_count + 1))])
                    else (Inr (error_dict ''MCP server not responding after retries''), tr1))
                 else (Inl e, tr1)))
      else (Inr (error_dict ''Unknown error in _handle_tool_call''), tr))"
  by pat_completeness auto
termination
  by (relation "measure (\<lambda>(w, n, p, retry_count, tr). max_retries - retry_count)") auto

declare retry_loop.simps [simp del]

text \<open>\<^verbatim>\<open>ClaudeClient._handle_tool_call(tool_call)\<close>.\<close>

definition handle_tool_call :: "world \<Rightarrow> json \<Rightarrow> event list \<Rightarrow> (exc + json) \<times> event list" where
  "handle_tool_call w tool_call tr =
     (let tr0 = tr @ [Dispatch tool_call]
      in (case dict_get tool_call ''name'' JNull of
            Inl e \<Rightarrow> (Inl e, tr0)
          | Inr tool_name \<Rightarrow>
              (case dict_get tool_call ''parameters'' JNull of
                 Inl e \<Rightarrow> (Inl e, tr0)
               | Inr tool_params \<Rightarrow>
                   (case ClaudeClient_check_mcp_server w tr0 of
                      (Inl e, tr1) \<Rightarrow> (Inl e, tr1)
                    | (Inr available, tr1) \<Rightarrow>
                        if \<not> available then (Inr (error_dict ''MCP server not available''), tr1)
                        else retry_loop w tool_name tool_params 0 tr1))))"

text \<open>The start of the \<^verbatim>\<open>try\<close> in \<^verbatim>\<open>send_message\<close>: the POST, the print of the error
  body (which decodes it), \<^verbatim>\<open>raise_for_status\<close> and \<^verbatim>\<open>response.json()\<close>.\<close>

definition llm_result :: "outcome \<Rightarrow> exc + json" where
  "llm_result out =
     (case out of
        Raised e \<Rightarrow> Inl e
      | Returned response \<Rightarrow>
          bind_exc (if status_code response \<noteq> 200
                    then bind_exc (json_body response) (\<lambda>_. Inr ()) else Inr ()) (\<lambda>_.
          bind_exc (raise_for_status response) (\<lambda>_. json_body response)))"

text \<open>The \<^verbatim>\<open>for content_block in ...\<close> loop of \<^verbatim>\<open>send_message\<close> up to the block it acts on:
  the body of the \<^verbatim>\<open>if\<close> ends in \<^verbatim>\<open>return\<close>, so the loop stops at the first block whose
  type is \<^verbatim>\<open>tool_use\<close>.\<close>

fun first_tool_use :: "json list \<Rightarrow> exc + json option" where
  "first_tool_use [] = Inr None"
| "first_tool_use (content_block # rest) =
     bind_exc (dict_get content_block ''type'' JNull) (\<lambda>t.
       if t = JStr ''tool_use'' then Inr (Some content_block) else first_tool_use rest)"

definition tool_use_of :: "json \<Rightarrow> exc + json option" where
  "tool_use_of result =
     bind_exc (py_contains result ''content'') (\<lambda>present.
       if present then
         bind_exc (dict_get result ''content'' (JArr [])) (\<lambda>content.
         bind_exc (py_iter content) first_tool_use)
       else Inr None)"

definition make_tool_call :: "json \<Rightarrow> exc + json" where
  "make_tool_call content_block =
     bind_exc (dict_get content_block ''name'' (JStr [])) (\<lambda>name.
     bind_exc (dict_get content_block ''input'' (JObj [])) (\<lambda>inp.
     bind_exc (dict_get inp ''query'' (JObj [])) (\<lambda>query.
       Inr (JObj [(''name'', name), (''parameters'', JObj [(''query'', query)])]))))"

text \<open>"Safely extract tool response description".\<close>

definition tool_description :: "json \<Rightarrow> exc + json" where
  "tool_description tool_response =
     bind_exc (dict_get tool_response ''results'' JNull) (\<lambda>results.
       if py_truthy results then
         bind_exc (py_len results) (\<lambda>n.
           if n > 0 then
             bind_exc (py_index0 results) (\<lambda>first. dict_get first ''description'' (JStr []))
           else Inr (JStr []))
       else Inr (JStr []))"

definition injected_sentence :: string where
  "injected_sentence =
     [CHR 0x0A, CHR 0x0A] @
     ''The tool call was successful and here is the information from the tool call: ''"

definition assistant_text :: "json \<Rightarrow> json \<Rightarrow> exc + json" where
  "assistant_text result descr =
     bind_exc (dict_get result ''content'' (JArr [JObj []])) (\<lambda>content.
     bind_exc (py_index0 content) (\<lambda>first.
     bind_exc (dict_get first ''text'' (JStr [])) (\<lambda>leading.
     bind_exc (py_add leading (JStr injected_sentence)) (\<lambda>s.
       py_add s descr))))"

definition user_turn :: "string \<Rightarrow> json" where
  "user_turn message = JObj [(''role'', JStr ''user''), (''content'', JStr message)]"

definition assistant_turn :: "json \<Rightarrow> json" where
  "assistant_turn text =
     JObj [(''role'', JStr ''assistant''),
           (''content'', JArr [JObj [(''type'', JStr ''text''), (''text'', text)]])]"

definition summarize_request :: string where
  "summarize_request =
     ''Please summarize the information from the tool call and don'' @ [CHR 0x27] @
     ''t send any more tool calls''"

definition make_payload :: "config \<Rightarrow> json list \<Rightarrow> string \<Rightarrow> json" where
  "make_payload cfg conversation_history message =
     JObj [(''model'', JStr (model cfg)),
           (''max_tokens'', JNum 4096),
           (''messages'', JArr (conversation_history @ [user_turn message])),
           (''tools'', tools)]"

text \<open>
  What \<^verbatim>\<open>except Exception\<close> around the recursive self-call makes of its outcome: a value is
  returned as it is, anything raised becomes an error dict.
\<close>

definition except_exception :: "(exc + json) \<times> event list \<Rightarrow> (exc + json) \<times> event list" where
  "except_exception r =
     (case r of
        (Inl e, tr) \<Rightarrow> (Inr (error_dict (str_exc e)), tr)
      | (Inr v, tr) \<Rightarrow> (Inr v, tr))"

text \<open>
  \<^verbatim>\<open>ClaudeClient.send_message(message, conversation_history)\<close>. The source puts no bound on
  the recursive self-call; the interpreter does. The first argument is the number of nested
  calls of \<^verbatim>\<open>send_message\<close> that the interpreter's recursion limit still allows: a call beyond
  it raises RecursionError, which is an \<^verbatim>\<open>Exception\<close> and is raised inside the caller's
  \<^verbatim>\<open>try\<close>. (At which call of the deepest frame the interpreter raises depends on the frames
  that call needs; every such point lies in the same \<^verbatim>\<open>try\<close>.) \<open>Inl e\<close> is an exception that
  leaves the method: the ValueError raised before the \<^verbatim>\<open>try\<close>, or the RecursionError of a call
  that cannot be entered; everything raised inside the \<^verbatim>\<open>try\<close> is caught and returned as an
  error dict.
\<close>

fun send_message ::
  "nat \<Rightarrow> world \<Rightarrow> config \<Rightarrow> string \<Rightarrow> json list \<Rightarrow> event list \<Rightarrow> (exc + json) \<times> event list"
where
  "send_message 0 w cfg message conversation_history tr =
     (Inl (Exc RecursionError ''maximum recursion depth exceeded''), tr)"
| "send_message (Suc depth) w cfg message conversation_history tr =
     (if api_key cfg = [] then (Inl (Exc ValueError ''Claude API key is required''), tr)
      else
        (let payload = make_payload cfg conversation_history message;
             out = fst (post_llm w payload tr);
             tr1 = snd (post_llm w payload tr)
         in (case llm_result out of
               Inl e \<Rightarrow> (Inr (error_dict (str_exc e)), tr1)
             | Inr result \<Rightarrow>
                 (case tool_use_of result of
                    Inl e \<Rightarrow> (Inr (error_dict (str_exc e)), tr1)
                  | Inr None \<Rightarrow> (Inr result, tr1)
                  | Inr (Some content_block) \<Rightarrow>
                      (case make_tool_call content_block of
                         Inl e \<Rightarrow> (Inr (error_dict (str_exc e)), tr1)
                       | Inr tool_call \<Rightarrow>
                           (case handle_tool_call w tool_call tr1 of
                              (Inl e, tr2) \<Rightarrow> (Inr (error_dict (str_exc e)), tr2)
                            | (Inr tool_response, tr2) \<Rightarrow>
                                (case bind_exc (tool_description tool_response)
                                        (assistant_text result) of
                                   Inl e \<Rightarrow> (Inr (error_dict (str_exc e)), tr2)
                                 | Inr text \<Rightarrow>
                                     except_exception
                                       (send_message depth w cfg summarize_request
                                          (conversation_history @
                                             [user_turn message, assistant_turn text])
                                          tr2))))))))"

text \<open>The loop of \<^verbatim>\<open>get_final_answer\<close>: the text of the first block of type \<^verbatim>\<open>text\<close>.\<close>

fun first_text :: "json list \<Rightarrow> exc + json option" where
  "first_text [] = Inr None"
| "first_text (content_block # rest) =
     bind_exc (dict_get content_block ''type'' JNull) (\<lambda>t.
       if t = JStr ''text'' then
         bind_exc (dict_get content_block ''text'' (JStr [])) (\<lambda>x. Inr (Some x))
       else first_text rest)"

definition answer_of :: "json \<Rightarrow> exc + json" where
  "answer_of response =
     bind_exc (py_contains response ''content'') (\<lambda>present.
       if present then
         bind_exc (dict_get response ''content'' (JArr [])) (\<lambda>content.
         bind_exc (py_iter content) (\<lambda>blocks.
         bind_exc (first_text blocks) (\<lambda>found.
           case found of Some x \<Rightarrow> Inr x | None \<Rightarrow> Inr (JStr ''No clear answer found''))))
       else Inr (JStr ''No clear answer found''))"

text \<open>\<^verbatim>\<open>ClaudeClient.get_final_answer(message)\<close>: \<^verbatim>\<open>send_message\<close> starts from an empty
  history; \<^verbatim>\<open>except Exception\<close> turns everything raised into an \<^verbatim>\<open>Error: ...\<close> string. The
  first argument is the one of \<^verbatim>\<open>send_message\<close>.\<close>

definition get_final_answer ::
  "nat \<Rightarrow> world \<Rightarrow> config \<Rightarrow> string \<Rightarrow> event list \<Rightarrow> json \<times> event list"
where
  "get_final_answer depth w cfg message tr =
     (case send_message depth w cfg message [] tr of
        (Inl e, tr1) \<Rightarrow> (JStr (''Error: '' @ str_exc e), tr1)
      | (Inr response, tr1) \<Rightarrow>
          (case answer_of response of
             Inl e \<Rightarrow> (JStr (''Error: '' @ str_exc e), tr1)
           | Inr answer \<Rightarrow> (answer, tr1)))"

section \<open>ask_claude.py\<close>

text \<open>\<^verbatim>\<open>check_mcp_server()\<close> of ask_claude.py. \<^verbatim>\<open>main\<close> does not call it.\<close>

definition check_mcp_server :: "world \<Rightarrow> event list \<Rightarrow> (exc + bool) \<times> event list" where
  "check_mcp_server w tr =
     (let out = fst (get_health w tr); tr1 = snd (get_health w tr)
      in (case out of
            Returned response \<Rightarrow> (Inr (status_code response = 200), tr1)
          | Raised e \<Rightarrow> if is_request_exception e then (Inr False, tr1) else (Inl e, tr1)))"

text \<open>How \<^verbatim>\<open>main\<close> ends: \<^verbatim>\<open>sys.exit(1)\<close>, the answer printed (exit code 0), or an uncaught
  exception.\<close>

datatype main_result = Exit nat | Answer json | Uncaught exc

fun join_spaces :: "string list \<Rightarrow> string" where
  "join_spaces [] = []"
| "join_spaces [a] = a"
| "join_spaces (a # b # rest) = a @ '' '' @ join_spaces (b # rest)"

text \<open>
  \<^verbatim>\<open>main()\<close>: \<open>environ_key\<close> is \<^verbatim>\<open>os.environ.get("CLAUDE_API_KEY")\<close>, \<open>args_query\<close> is
  \<^verbatim>\<open>args.query\<close> as argparse leaves it, \<open>stdin_line\<close> is what \<^verbatim>\<open>input\<close> returns (\<open>None\<close>: end
  of input). \<^verbatim>\<open>ClaudeClient()\<close> takes the same key and runs \<^verbatim>\<open>_check_mcp_server\<close> once,
  dropping its result. The first argument is the one of \<^verbatim>\<open>send_message\<close>.
\<close>

definition main ::
  "nat \<Rightarrow> world \<Rightarrow> string option \<Rightarrow> string list \<Rightarrow> string option \<Rightarrow> main_result \<times> event list"
where
  "main depth w environ_key args_query stdin_line =
     (case environ_key of
        None \<Rightarrow> (Exit 1, [])
      | Some key \<Rightarrow>
          if key = [] then (Exit 1, [])
          else
            (case (if args_query \<noteq> [] then Some (join_spaces args_query) else stdin_line) of
               None \<Rightarrow> (Uncaught (Exc EOFError ''EOF when reading a line''), [])
             | Some query \<Rightarrow>
                 (let client = \<lparr>api_key = key, model = ''claude-3-opus-20240229''\<rparr>
                  in (case ClaudeClient_check_mcp_server w [] of
                        (Inl e, tr1) \<Rightarrow> (Uncaught e, tr1)
                      | (Inr available, tr1) \<Rightarrow>
                          (case get_final_answer depth w client query tr1 of
                             (answer, tr2) \<Rightarrow> (Answer answer, tr2))))))"

section \<open>Worlds used as concrete inputs\<close>

definition ok_response :: "json \<Rightarrow> outcome" where
  "ok_response body = Returned \<lparr>status_code = 200, raise_text = [], json_body = Inr body\<rparr>"

definition status_response :: "nat \<Rightarrow> json \<Rightarrow> outcome" where
  "status_response s body =
     Returned \<lparr>status_code = s, raise_text = ''HTTP error'', json_body = Inr body\<rparr>"

definition connection_error :: outcome where
  "connection_error = Raised (Exc RequestException ''connection refused'')"

definition fetch_call :: "json \<Rightarrow> json" where
  "fetch_call query =
     JObj [(''name'', JStr ''fetch_web_content''), (''parameters'', JObj [(''query'', query)])]"

definition answering_no_query_world :: world where
  "answering_no_query_world =
     \<lparr>health = (\<lambda>n. ok_response (JObj [(''status'', JStr ''ok'')])),
      tool = (\<lambda>n. ok_response (error_dict ''no query'')),
      llm = (\<lambda>n. connection_error),
      ddg = (\<lambda>n. connection_error)\<rparr>"

definition unreachable_world :: world where
  "unreachable_world =
     \<lparr>health = (\<lambda>n. connection_error),
      tool = (\<lambda>n. connection_error),
      llm = (\<lambda>n. connection_error),
      ddg = (\<lambda>n. connection_error)\<rparr>"

definition search_world :: "outcome \<Rightarrow> world" where
  "search_world out =
     \<lparr>health = (\<lambda>n. connection_error), tool = (\<lambda>n. connection_error),
      llm = (\<lambda>n. connection_error), ddg = (\<lambda>n. out)\<rparr>"

definition paris_body :: "(string \<times> json) list" where
  "paris_body = [(''Abstract'', JStr ''Paris is the capital of France.''),
                 (''Heading'', JStr ''Paris''),
                 (''AbstractURL'', JStr ''https://en.wikipedia.org/wiki/Paris'')]"

definition tool_world :: "(nat \<Rightarrow> outcome) \<Rightarrow> world" where
  "tool_world t =
     \<lparr>health = (\<lambda>n. ok_response (JObj [(''status'', JStr ''ok'')])), tool = t,
      llm = (\<lambda>n. connection_error), ddg = (\<lambda>n. connection_error)\<rparr>"

definition eiffel_results :: json where
  "eiffel_results =
     JObj [(''results'', JArr [JObj [(''title'', JStr ''Eiffel Tower''),
                                     (''url'', JStr ''https://en.wikipedia.org/wiki/Eiffel_Tower''),
                                     (''description'', JStr ''The Eiffel Tower is 330 metres tall.'')]])]"

definition llm_world :: "outcome \<Rightarrow> (nat \<Rightarrow> outcome) \<Rightarrow> world" where
  "llm_world h l =
     \<lparr>health = (\<lambda>n. h), tool = (\<lambda>n. connection_error), llm = l, ddg = (\<lambda>n. connection_error)\<rparr>"

definition text_block :: "string \<Rightarrow> json" where
  "text_block s = JObj [(''type'', JStr ''text''), (''text'', JStr s)]"

definition tool_use_block :: "string \<Rightarrow> json" where
  "tool_use_block query =
     JObj [(''type'', JStr ''tool_use''), (''name'', JStr ''fetch_web_content''),
           (''input'', JObj [(''query'', JStr query)])]"

definition content_response :: "json list \<Rightarrow> outcome" where
  "content_response blocks = ok_response (JObj [(''content'', JArr blocks)])"

definition opus :: "string \<Rightarrow> config" where
  "opus key = \<lparr>api_key = key, model = ''claude-3-opus-20240229''\<rparr>"

definition eiffel_world :: world where
  "eiffel_world =
     \<lparr>health = (\<lambda>n. ok_response (JObj [(''status'', JStr ''ok'')])),
      tool = (\<lambda>n. ok_response eiffel_results),
      llm = (\<lambda>n. if n = 0
                   then content_response [tool_use_block ''Eiffel Tower height'',
                                          tool_use_block ''Louvre opening hours'']
                   else content_response [text_block ''The Eiffel Tower is 330 meters tall.'']),
      ddg = (\<lambda>n. connection_error)\<rparr>"

definition insistent_world :: world where
  "insistent_world =
     llm_world connection_error (\<lambda>n. content_response [tool_use_block ''Eiffel Tower height''])"

definition twice_world :: world where
  "twice_world =
     \<lparr>health = (\<lambda>n. ok_response (JObj [(''status'', JStr ''ok'')])),
      tool = (\<lambda>n. ok_response eiffel_results),
      llm = (\<lambda>n. if n < 2
                   then content_response [text_block ''Let me look that up.'',
                                          tool_use_block ''Eiffel Tower height'']
                   else content_response [text_block ''The Eiffel Tower is 330 meters tall.'']),
      ddg = (\<lambda>n. connection_error)\<rparr>"

definition tool_down_world :: world where
  "tool_down_world = tool_world (\<lambda>n. connection_error)"

definition error_status_world :: world where
  "error_status_world = tool_world (\<lambda>n. status_response 500 (error_dict ''internal error''))"

definition paris_world :: world where
  "paris_world =
     llm_world connection_error (\<lambda>n. content_response [text_block ''Paris is the capital of France.''])"

definition no_text_world :: world where
  "no_text_world = llm_world connection_error (\<lambda>n. content_response [])"

definition multiple_choices_search_world :: world where
  "multiple_choices_search_world =
     search_world (Returned \<lparr>status_code = 300, raise_text = [], json_body = Inr (JObj paris_body)\<rparr>)"

definition multiple_choices_llm_world :: world where
  "multiple_choices_llm_world =
     llm_world connection_error
       (\<lambda>n. Returned \<lparr>status_code = 300, raise_text = [],
                      json_body = Inr (JObj [(''content'',
                        JArr [text_block ''Paris is the capital of France.''])])\<rparr>)"

section \<open>Notions the properties are stated with\<close>

text \<open>A content block of type \<^verbatim>\<open>text\<close>, and the text it carries (\<^verbatim>\<open>""\<close> when it has none).\<close>

definition is_text_block :: "json \<Rightarrow> bool" where
  "is_text_block b = (dict_get b ''type'' JNull = Inr (JStr ''text''))"

definition is_tool_use_block :: "json \<Rightarrow> bool" where
  "is_tool_use_block b = (dict_get b ''type'' JNull = Inr (JStr ''tool_use''))"

definition is_dict :: "json \<Rightarrow> bool" where
  "is_dict v = (case v of JObj kvs \<Rightarrow> True | _ \<Rightarrow> False)"

definition block_text :: "json \<Rightarrow> json" where
  "block_text b = (case dict_get b ''text'' (JStr []) of Inr t \<Rightarrow> t | Inl e \<Rightarrow> JNull)"

text \<open>
  The requests sent to the LLM in a run, in order: each with the trace before it and its
  payload. From these, the \<^verbatim>\<open>messages\<close> of every request.
\<close>

definition messages_of :: "json \<Rightarrow> json list" where
  "messages_of payload =
     (case dict_get payload ''messages'' JNull of Inr (JArr ms) \<Rightarrow> ms | _ \<Rightarrow> [])"

fun llm_requests :: "event list \<Rightarrow> event list \<Rightarrow> (event list \<times> json) list" where
  "llm_requests before [] = []"
| "llm_requests before (Llm_post payload # tr) =
     (before, payload) # llm_requests (before @ [Llm_post payload]) tr"
| "llm_requests before (e # tr) = llm_requests (before @ [e]) tr"

definition llm_messages :: "event list \<Rightarrow> json list list" where
  "llm_messages tr = map (\<lambda>req. messages_of (snd req)) (llm_requests [] tr)"

definition turn_role :: "json \<Rightarrow> json" where
  "turn_role t = (case dict_get t ''role'' JNull of Inr r \<Rightarrow> r | Inl e \<Rightarrow> JNull)"

text \<open>Strict alternation of roles, the first turn being the user's.\<close>

fun alternates :: "json list \<Rightarrow> bool" where
  "alternates [] = True"
| "alternates [t] = (turn_role t = JStr ''user'')"
| "alternates (t # a # rest) =
     (turn_role t = JStr ''user'' \<and> turn_role a = JStr ''assistant'' \<and> alternates rest)"

text \<open>
  The model's leading text: the text of the first content block of a response, empty when
  that block has none. The tool result's description: the description of the first entry
  of \<^verbatim>\<open>results\<close>, empty when there is no entry or the entry has none.
\<close>

definition leading_text :: "json \<Rightarrow> string" where
  "leading_text result =
     (case result of
        JObj kvs \<Rightarrow>
          (case map_of kvs ''content'' of
             Some (JArr (JObj bkvs # rest)) \<Rightarrow>
               (case map_of bkvs ''text'' of Some (JStr s) \<Rightarrow> s | _ \<Rightarrow> [])
           | _ \<Rightarrow> [])
      | _ \<Rightarrow> [])"

definition result_description :: "json \<Rightarrow> string" where
  "result_description tool_response =
     (case tool_response of
        JObj kvs \<Rightarrow>
          (case map_of kvs ''results'' of
             Some (JArr (JObj rkvs # rest)) \<Rightarrow>
               (case map_of rkvs ''description'' of Some (JStr s) \<Rightarrow> s | _ \<Rightarrow> [])
           | _ \<Rightarrow> [])
      | _ \<Rightarrow> [])"

text \<open>
  One tool round-trip between two consecutive requests to the LLM. The first request
  carried a history and a message. Its answer held a tool-use block, the dispatcher was
  called with the tool call made from that block, right after the request, and returned a
  result. The second request is sent right after the dispatch and carries that history,
  the message restated as a user turn, one assistant turn (the leading text of the answer,
  the injected sentence, the description of the tool result), and the summarization
  request.
\<close>

definition round_trip_between ::
  "world \<Rightarrow> event list \<times> json \<Rightarrow> event list \<times> json \<Rightarrow> bool"
where
  "round_trip_between w req req' =
     (\<exists>history message result block tool_call tool_response.
        messages_of (snd req) = history @ [user_turn message]
        \<and> llm_result (llm w (calls is_llm_post (fst req))) = Inr result
        \<and> tool_use_of result = Inr (Some block)
        \<and> make_tool_call block = Inr tool_call
        \<and> handle_tool_call w tool_call (fst req @ [Llm_post (snd req)]) =
            (Inr tool_response, fst req')
        \<and> messages_of (snd req') =
            (history @
               [user_turn message,
                assistant_turn (JStr (leading_text result @ injected_sentence
                                       @ result_description tool_response))])
            @ [user_turn summarize_request])"

fun round_trips :: "world \<Rightarrow> (event list \<times> json) list \<Rightarrow> bool" where
  "round_trips w [] = True"
| "round_trips w [req] = True"
| "round_trips w (req # req' # rest) =
     (round_trip_between w req req' \<and> round_trips w (req' # rest))"


section \<open>Properties\<close>

subsection \<open>The search gateway\<close>

text \<open>
  C4 (amended). For every query and every count, \<^verbatim>\<open>MCPClient.search\<close> returns (it never
  raises): the empty list when the GET raises, when the status is 4xx or 5xx (the ones
  \<^verbatim>\<open>raise_for_status\<close> rejects), when the body does not decode or is not an object. With
  any other status (2xx, but 1xx and 3xx as well) and an object body, it returns exactly
  one result when the provider's \<^verbatim>\<open>Abstract\<close> is truthy (a non-empty string, or any other
  truthy value) and none otherwise. The result never has more than one entry and does not
  depend on \<^verbatim>\<open>count\<close>.
\<close>

theorem search_at_most_one:
  "(\<exists>results. fst (search w query count tr) = Inr results \<and> length results \<le> 1)
   \<and> (ddg w (calls is_ddg_get tr) = Raised e \<longrightarrow> fst (search w query count tr) = Inr [])
   \<and> (ddg w (calls is_ddg_get tr) = Returned r \<and> http_error_status (status_code r)
        \<longrightarrow> fst (search w query count tr) = Inr [])
   \<and> (ddg w (calls is_ddg_get tr) = Returned r \<and> json_body r = Inl e
        \<longrightarrow> fst (search w query count tr) = Inr [])
   \<and> (ddg w (calls is_ddg_get tr) = Returned r \<and> json_body r = Inr data \<and> (\<forall>kvs. data \<noteq> JObj kvs)
        \<longrightarrow> fst (search w query count tr) = Inr [])
   \<and> (ddg w (calls is_ddg_get tr) = Returned r \<and> \<not> http_error_status (status_code r)
        \<and> json_body r = Inr (JObj kvs) \<and> map_of kvs ''Abstract'' = Some a \<and> py_truthy a
        \<longrightarrow> fst (search w query count tr) =
             Inr [\<lparr>title = (case map_of kvs ''Heading'' of Some h \<Rightarrow> h | None \<Rightarrow> JStr []),
                   url = (case map_of kvs ''AbstractURL'' of Some u \<Rightarrow> u | None \<Rightarrow> JStr []),
                   description = a\<rparr>])
   \<and> (ddg w (calls is_ddg_get tr) = Returned r \<and> \<not> http_error_status (status_code r)
        \<and> json_body r = Inr (JObj kvs)
        \<and> (map_of kvs ''Abstract'' = None \<or> (\<exists>b. map_of kvs ''Abstract'' = Some b \<and> \<not> py_truthy b))
        \<longrightarrow> fst (search w query count tr) = Inr [])
   \<and> search w query count tr = search w query count' tr"
proof -
  have "\<And>out rs. search_parse out = Inr rs \<Longrightarrow> length rs \<le> 1"
    by (auto simp: search_parse_def bind_exc_def split: outcome.splits sum.splits if_splits)
  then have total: "\<exists>results. fst (search w query count tr) = Inr results \<and> length results \<le> 1"
    by (cases "search_parse (ddg w (calls is_ddg_get tr))")
       (auto simp: search_def get_ddg_def Let_def)
  have raised: "ddg w (calls is_ddg_get tr) = Raised e \<longrightarrow> fst (search w query count tr) = Inr []"
    by (simp add: search_def get_ddg_def search_parse_def)
  have status: "ddg w (calls is_ddg_get tr) = Returned r \<and> http_error_status (status_code r)
        \<longrightarrow> fst (search w query count tr) = Inr []"
    by (simp add: search_def get_ddg_def search_parse_def bind_exc_def raise_for_status_def)
  have undecodable: "ddg w (calls is_ddg_get tr) = Returned r \<and> json_body r = Inl e
        \<longrightarrow> fst (search w query count tr) = Inr []"
    by (simp add: search_def get_ddg_def search_parse_def bind_exc_def raise_for_status_def)
  have not_dict: "ddg w (calls is_ddg_get tr) = Returned r \<and> json_body r = Inr data \<and> (\<forall>kvs. data \<noteq> JObj kvs)
        \<longrightarrow> fst (search w query count tr) = Inr []"
    by (cases data)
       (simp_all add: search_def get_ddg_def search_parse_def bind_exc_def raise_for_status_def)
  have one: "ddg w (calls is_ddg_get tr) = Returned r \<and> \<not> http_error_status (status_code r)
        \<and> json_body r = Inr (JObj kvs) \<and> map_of kvs ''Abstract'' = Some a \<and> py_truthy a
        \<longrightarrow> fst (search w query count tr) =
             Inr [\<lparr>title = (case map_of kvs ''Heading'' of Some h \<Rightarrow> h | None \<Rightarrow> JStr []),
                   url = (case map_of kvs ''AbstractURL'' of Some u \<Rightarrow> u | None \<Rightarrow> JStr []),
                   description = a\<rparr>]"
    by (simp add: search_def get_ddg_def search_parse_def bind_exc_def raise_for_status_def)
  have none: "ddg w (calls is_ddg_get tr) = Returned r \<and> \<not> http_error_status (status_code r)
        \<and> json_body r = Inr (JObj kvs)
        \<and> (map_of kvs ''Abstract'' = None \<or> (\<exists>b. map_of kvs ''Abstract'' = Some b \<and> \<not> py_truthy b))
        \<longrightarrow> fst (search w query count tr) = Inr []"
  proof (intro impI, elim conjE disjE exE)
    assume "ddg w (calls is_ddg_get tr) = Returned r" "\<not> http_error_status (status_code r)"
      "json_body r = Inr (JObj kvs)" "map_of kvs ''Abstract'' = None"
    then show "fst (search w query count tr) = Inr []"
      by (simp add: search_def get_ddg_def search_parse_def bind_exc_def raise_for_status_def)
  next
    fix b
    assume "ddg w (calls is_ddg_get tr) = Returned r" "\<not> http_error_status (status_code r)"
      "json_body r = Inr (JObj kvs)" "map_of kvs ''Abstract'' = Some b" "\<not> py_truthy b"
    then show "fst (search w query count tr) = Inr []"
      by (simp add: search_def get_ddg_def search_parse_def bind_exc_def raise_for_status_def)
  qed
  have count: "search w query count tr = search w query count' tr"
    by (simp add: search_def)
  from total raised status undecodable not_dict one none count show ?thesis
    by blast
qed

theorem search_at_most_one_witness:
  "fst (search (search_world (ok_response (JObj paris_body))) (JStr ''Paris'') 10 []) =
     Inr [\<lparr>title = JStr ''Paris'', url = JStr ''https://en.wikipedia.org/wiki/Paris'',
           description = JStr ''Paris is the capital of France.''\<rparr>]
   \<and> fst (search (search_world (ok_response (JObj [(''Abstract'', JStr [])]))) (JStr ''Paris'') 3 []) = Inr []
   \<and> fst (search (search_world (status_response 503 (JObj paris_body))) (JStr ''Paris'') 10 []) = Inr []
   \<and> fst (search (search_world connection_error) (JStr ''Paris'') 10 []) = Inr []
   \<and> fst (search (search_world (ok_response (JArr []))) (JStr ''Paris'') 10 []) = Inr []
   \<and> fst (search (search_world (Returned \<lparr>status_code = 200, raise_text = [],
              json_body = Inl (Exc OtherException ''Expecting value'')\<rparr>)) (JStr ''Paris'') 10 []) = Inr []"
  using search_at_most_one [where w = "search_world (ok_response (JObj paris_body))"
          and query = "JStr ''Paris''" and count = 10 and tr = "[]" and kvs = paris_body
          and a = "JStr ''Paris is the capital of France.''"
          and r = "\<lparr>status_code = 200, raise_text = [], json_body = Inr (JObj paris_body)\<rparr>"]
        search_at_most_one [where w = "search_world (ok_response (JObj [(''Abstract'', JStr [])]))"
          and query = "JStr ''Paris''" and count = 3 and tr = "[]" and kvs = "[(''Abstract'', JStr [])]"
          and r = "\<lparr>status_code = 200, raise_text = [], json_body = Inr (JObj [(''Abstract'', JStr [])])\<rparr>"]
        search_at_most_one [where w = "search_world (status_response 503 (JObj paris_body))"
          and query = "JStr ''Paris''" and count = 10 and tr = "[]"
          and r = "\<lparr>status_code = 503, raise_text = ''HTTP error'', json_body = Inr (JObj paris_body)\<rparr>"]
        search_at_most_one [where w = "search_world connection_error"
          and query = "JStr ''Paris''" and count = 10 and tr = "[]"
          and e = "Exc RequestException ''connection refused''"]
        search_at_most_one [where w = "search_world (ok_response (JArr []))"
          and query = "JStr ''Paris''" and count = 10 and tr = "[]" and data = "JArr []"
          and r = "\<lparr>status_code = 200, raise_text = [], json_body = Inr (JArr [])\<rparr>"]
        search_at_most_one [where w = "search_world (Returned \<lparr>status_code = 200, raise_text = [],
              json_body = Inl (Exc OtherException ''Expecting value'')\<rparr>)"
          and query = "JStr ''Paris''" and count = 10 and tr = "[]"
          and e = "Exc OtherException ''Expecting value''"
          and r = "\<lparr>status_code = 200, raise_text = [],
              json_body = Inl (Exc OtherException ''Expecting value'')\<rparr>"]
  by (simp add: search_world_def ok_response_def status_response_def connection_error_def
        paris_body_def http_error_status_def)

text \<open>
  C4 fails for a non-successful status outside 4xx and 5xx: \<^verbatim>\<open>raise_for_status\<close> accepts
  a 300, and the body's abstract is returned as a result.
\<close>

theorem multiple_choices_search_counterexample:
  "fst (search multiple_choices_search_world (JStr ''Paris'') 10 []) =
     Inr [\<lparr>title = JStr ''Paris'', url = JStr ''https://en.wikipedia.org/wiki/Paris'',
           description = JStr ''Paris is the capital of France.''\<rparr>]
   \<and> fst (search multiple_choices_search_world (JStr ''Paris'') 10 []) \<noteq> Inr []"
  by (simp add: search_def get_ddg_def search_parse_def bind_exc_def raise_for_status_def
        http_error_status_def multiple_choices_search_world_def search_world_def paris_body_def
        DDGRequest_def to_dict_def calls_def)

subsection \<open>Traces\<close>

lemma calls_append [simp]: "calls p (xs @ ys) = calls p xs + calls p ys"
  by (simp add: calls_def)

lemma calls_Nil [simp]: "calls p [] = 0"
  by (simp add: calls_def)

lemma calls_Cons [simp]: "calls p (x # xs) = (if p x then 1 else 0) + calls p xs"
  by (simp add: calls_def)

subsection \<open>The retry loop of the tool dispatcher\<close>

lemma retry_loop_success:
  assumes "retry_count < max_retries"
    and "tool_call_attempt (tool w (calls is_tool_post tr)) = Inr v"
  shows "retry_loop w n p retry_count tr = (Inr v, tr @ [Tool_post (JObj [(''name'', n), (''parameters'', p)])])"
  using assms by (simp add: retry_loop.simps [of w n p retry_count tr] post_tool_call_def)

lemma retry_loop_leaves:
  assumes "retry_count < max_retries"
    and "tool_call_attempt (tool w (calls is_tool_post tr)) = Inl e"
    and "\<not> is_request_exception e"
  shows "retry_loop w n p retry_count tr = (Inl e, tr @ [Tool_post (JObj [(''name'', n), (''parameters'', p)])])"
  using assms by (simp add: retry_loop.simps [of w n p retry_count tr] post_tool_call_def)

lemma retry_loop_again:
  assumes "retry_count + 1 < max_retries"
    and "tool_call_attempt (tool w (calls is_tool_post tr)) = Inl e"
    and "is_request_exception e"
  shows "retry_loop w n p retry_count tr =
         retry_loop w n p (retry_count + 1)
           (tr @ [Tool_post (JObj [(''name'', n), (''parameters'', p)]), Sleep (2 ^ (retry_count + 1))])"
  using assms by (simp add: retry_loop.simps [of w n p retry_count tr] post_tool_call_def)

lemma retry_loop_exhausted:
  assumes "retry_count + 1 = max_retries"
    and "tool_call_attempt (tool w (calls is_tool_post tr)) = Inl e"
    and "is_request_exception e"
  shows "retry_loop w n p retry_count tr =
         (Inr (error_dict ''MCP server not responding after retries''),
          tr @ [Tool_post (JObj [(''name'', n), (''parameters'', p)])])"
  using assms by (simp add: retry_loop.simps [of w n p retry_count tr] post_tool_call_def)

lemma handle_tool_call_available:
  assumes "health w (calls is_health tr) = Returned h" and "status_code h = 200"
  shows "handle_tool_call w (JObj [(''name'', n), (''parameters'', p)]) tr =
         retry_loop w n p 0
           (tr @ [Dispatch (JObj [(''name'', n), (''parameters'', p)]), Health_get])"
  using assms
  by (simp add: handle_tool_call_def ClaudeClient_check_mcp_server_def get_health_def)

text \<open>
  C2 (amended). When the health probe answers 200 and the POST raises a transport failure
  on attempts 1 and 2: if attempt 3 completes with a decodable body and a status that
  \<^verbatim>\<open>raise_for_status\<close> accepts, the dispatcher returns that body after exactly three POSTs
  with sleeps of 2 and then 4 between them; if attempt 3 fails as well, it returns
  \<^verbatim>\<open>{"error": "MCP server not responding after retries"}\<close> after the same three POSTs and
  two sleeps.
\<close>

theorem retry_twice_then_success:
  assumes "health w (calls is_health tr) = Returned h" and "status_code h = 200"
    and "tool w (calls is_tool_post tr) = Raised (Exc RequestException m1)"
    and "tool w (calls is_tool_post tr + 1) = Raised (Exc RequestException m2)"
  shows "(tool w (calls is_tool_post tr + 2) = Returned r
            \<and> \<not> http_error_status (status_code r) \<and> json_body r = Inr v
          \<longrightarrow> handle_tool_call w (JObj [(''name'', n), (''parameters'', p)]) tr =
               (Inr v,
                tr @ [Dispatch (JObj [(''name'', n), (''parameters'', p)]), Health_get,
                      Tool_post (JObj [(''name'', n), (''parameters'', p)]), Sleep 2,
                      Tool_post (JObj [(''name'', n), (''parameters'', p)]), Sleep 4,
                      Tool_post (JObj [(''name'', n), (''parameters'', p)])]))
       \<and> (tool w (calls is_tool_post tr + 2) = Raised (Exc RequestException m3)
          \<longrightarrow> handle_tool_call w (JObj [(''name'', n), (''parameters'', p)]) tr =
               (Inr (error_dict ''MCP server not responding after retries''),
                tr @ [Dispatch (JObj [(''name'', n), (''parameters'', p)]), Health_get,
                      Tool_post (JObj [(''name'', n), (''parameters'', p)]), Sleep 2,
                      Tool_post (JObj [(''name'', n), (''parameters'', p)]), Sleep 4,
                      Tool_post (JObj [(''name'', n), (''parameters'', p)])]))"
proof -
  let ?tc = "JObj [(''name'', n), (''parameters'', p)]"
  let ?t0 = "tr @ [Dispatch ?tc, Health_get]"
  let ?t1 = "?t0 @ [Tool_post ?tc, Sleep (2 ^ (0 + 1))]"
  let ?t2 = "?t1 @ [Tool_post ?tc, Sleep (2 ^ (0 + 1 + 1))]"
  have start: "handle_tool_call w ?tc tr = retry_loop w n p 0 ?t0"
    using assms(1,2) by (rule handle_tool_call_available)
  have first: "retry_loop w n p 0 ?t0 = retry_loop w n p (0 + 1) ?t1"
    by (rule retry_loop_again [where e = "Exc RequestException m1"])
       (simp_all add: assms(3) max_retries_def tool_call_attempt_def is_request_exception_def)
  have second: "retry_loop w n p (0 + 1) ?t1 = retry_loop w n p (0 + 1 + 1) ?t2"
    by (rule retry_loop_again [where e = "Exc RequestException m2"])
       (use assms(4) in \<open>simp_all add: max_retries_def tool_call_attempt_def is_request_exception_def\<close>)
  have third_ok: "retry_loop w n p (0 + 1 + 1) ?t2 = (Inr v, ?t2 @ [Tool_post ?tc])"
    if "tool w (calls is_tool_post tr + 2) = Returned r"
      and "\<not> http_error_status (status_code r)" and "json_body r = Inr v"
    by (rule retry_loop_success)
       (use that in \<open>simp_all add: max_retries_def tool_call_attempt_def bind_exc_def raise_for_status_def\<close>)
  have third_fails: "retry_loop w n p (0 + 1 + 1) ?t2 =
      (Inr (error_dict ''MCP server not responding after retries''), ?t2 @ [Tool_post ?tc])"
    if "tool w (calls is_tool_post tr + 2) = Raised (Exc RequestException m3)"
    by (rule retry_loop_exhausted [where e = "Exc RequestException m3"])
       (use that in \<open>simp_all add: max_retries_def tool_call_attempt_def is_request_exception_def\<close>)
  show ?thesis
    unfolding start first second using third_ok third_fails by simp
qed

theorem retry_twice_then_success_witness:
  "handle_tool_call (tool_world (\<lambda>n. if n < 2 then connection_error else ok_response eiffel_results))
      (fetch_call (JStr ''Eiffel Tower height'')) [] =
     (Inr eiffel_results,
      [Dispatch (fetch_call (JStr ''Eiffel Tower height'')), Health_get,
       Tool_post (fetch_call (JStr ''Eiffel Tower height'')), Sleep 2,
       Tool_post (fetch_call (JStr ''Eiffel Tower height'')), Sleep 4,
       Tool_post (fetch_call (JStr ''Eiffel Tower height''))])
   \<and> handle_tool_call (tool_world (\<lambda>n. connection_error))
      (fetch_call (JStr ''Eiffel Tower height'')) [] =
     (Inr (error_dict ''MCP server not responding after retries''),
      [Dispatch (fetch_call (JStr ''Eiffel Tower height'')), Health_get,
       Tool_post (fetch_call (JStr ''Eiffel Tower height'')), Sleep 2,
       Tool_post (fetch_call (JStr ''Eiffel Tower height'')), Sleep 4,
       Tool_post (fetch_call (JStr ''Eiffel Tower height''))])"
  using retry_twice_then_success [where w = "tool_world (\<lambda>n. if n < 2 then connection_error else ok_response eiffel_results)"
          and tr = "[]" and h = "\<lparr>status_code = 200, raise_text = [], json_body = Inr (JObj [(''status'', JStr ''ok'')])\<rparr>"
          and ?m1.0 = "''connection refused''" and ?m2.0 = "''connection refused''"
          and r = "\<lparr>status_code = 200, raise_text = [], json_body = Inr eiffel_results\<rparr>"
          and v = eiffel_results and n = "JStr ''fetch_web_content''"
          and p = "JObj [(''query'', JStr ''Eiffel Tower height'')]"]
        retry_twice_then_success [where w = "tool_world (\<lambda>n. connection_error)"
          and tr = "[]" and h = "\<lparr>status_code = 200, raise_text = [], json_body = Inr (JObj [(''status'', JStr ''ok'')])\<rparr>"
          and ?m1.0 = "''connection refused''" and ?m2.0 = "''connection refused''"
          and ?m3.0 = "''connection refused''" and n = "JStr ''fetch_web_content''"
          and p = "JObj [(''query'', JStr ''Eiffel Tower height'')]"]
  by (simp add: tool_world_def ok_response_def connection_error_def fetch_call_def
        http_error_status_def)

text \<open>
  The error string of the exhausted retries is not the one C2 quotes
  (\<^verbatim>\<open>service not responding after retries\<close>).
\<close>

theorem retry_exhausted_counterexample:
  "fst (handle_tool_call tool_down_world (fetch_call (JStr ''Eiffel Tower height'')) []) =
     Inr (error_dict ''MCP server not responding after retries'')
   \<and> fst (handle_tool_call tool_down_world (fetch_call (JStr ''Eiffel Tower height'')) []) \<noteq>
     Inr (error_dict ''service not responding after retries'')"
  by (simp add: handle_tool_call_def ClaudeClient_check_mcp_server_def get_health_def
        tool_down_world_def tool_world_def fetch_call_def ok_response_def
        connection_error_def is_request_exception_def error_dict_def
        retry_loop.simps [of _ _ _ 0] retry_loop.simps [of _ _ _ "Suc 0"]
        retry_loop.simps [of _ _ _ "Suc (Suc 0)"] max_retries_def post_tool_call_def
        tool_call_attempt_def Let_def)

lemma retry_loop_extends:
  "\<exists>rest. snd (retry_loop w a b k t) = t @ rest \<and> list_all (\<lambda>e. is_tool_post e \<or> is_sleep e) rest"
proof (induction w a b k t rule: retry_loop.induct)
  case (1 w tool_name tool_params retry_count tr)
  let ?body = "JObj [(''name'', tool_name), (''parameters'', tool_params)]"
  let ?out = "fst (post_tool_call w ?body tr)"
  let ?tr1 = "snd (post_tool_call w ?body tr)"
  have tr1: "?tr1 = tr @ [Tool_post ?body]"
    by (simp add: post_tool_call_def)
  show ?case
  proof (cases "retry_count < max_retries")
    case False
    then show ?thesis by (subst retry_loop.simps) simp
  next
    case lt: True
    show ?thesis
    proof (cases "tool_call_attempt ?out")
      case (Inr v)
      with lt show ?thesis by (subst retry_loop.simps) (simp add: tr1 Let_def)
    next
      case (Inl e)
      show ?thesis
      proof (cases "is_request_exception e \<and> retry_count + 1 < max_retries")
        case False
        with lt Inl show ?thesis by (subst retry_loop.simps) (auto simp: tr1 Let_def)
      next
        case True
        then have req: "is_request_exception e" and lt2: "retry_count + 1 < max_retries"
          by simp_all
        from "1.IH" [OF lt refl refl refl Inl req lt2]
        obtain rest where
          rest: "snd (retry_loop w tool_name tool_params (retry_count + 1)
                   (?tr1 @ [Sleep (2 ^ (retry_count + 1))])) =
                 (?tr1 @ [Sleep (2 ^ (retry_count + 1))]) @ rest"
          and kinds: "list_all (\<lambda>e. is_tool_post e \<or> is_sleep e) rest"
          by blast
        have "snd (retry_loop w tool_name tool_params retry_count tr) =
              tr @ (Tool_post ?body # Sleep (2 ^ (retry_count + 1)) # rest)"
          using lt Inl req lt2 rest by (subst retry_loop.simps) (simp add: tr1 Let_def)
        moreover have "list_all (\<lambda>e. is_tool_post e \<or> is_sleep e)
              (Tool_post ?body # Sleep (2 ^ (retry_count + 1)) # rest)"
          using kinds by simp
        ultimately show ?thesis by blast
      qed
    qed
  qed
qed

subsection \<open>The empty query\<close>

text \<open>
  C1 fails for the dispatcher the orchestrator calls: \<^verbatim>\<open>_handle_tool_call\<close> never looks at
  the query. With an empty query it probes the health endpoint and, when the probe
  answers 200, POSTs the tool call (here the server answers as
  \<^verbatim>\<open>handle_claude_tool_call\<close> would); when the probe fails, the result is not
  \<^verbatim>\<open>{"error": "no query"}\<close>.
\<close>

theorem empty_query_counterexample:
  "snd (handle_tool_call answering_no_query_world (fetch_call (JStr [])) []) =
     [Dispatch (fetch_call (JStr [])), Health_get, Tool_post (fetch_call (JStr []))]
   \<and> calls is_network (snd (handle_tool_call answering_no_query_world (fetch_call (JStr [])) [])) = 2
   \<and> fst (handle_tool_call unreachable_world (fetch_call (JStr [])) []) =
       Inr (error_dict ''MCP server not available'')
   \<and> fst (handle_tool_call unreachable_world (fetch_call (JStr [])) []) \<noteq>
       Inr (error_dict ''no query'')"
  by (simp add: handle_tool_call_def ClaudeClient_check_mcp_server_def get_health_def
        answering_no_query_world_def unreachable_world_def fetch_call_def ok_response_def
        connection_error_def is_request_exception_def error_dict_def
        retry_loop.simps [of _ _ _ 0] max_retries_def post_tool_call_def tool_call_attempt_def
        bind_exc_def raise_for_status_def http_error_status_def is_network_def)

text \<open>
  C1 (amended). \<^verbatim>\<open>handle_claude_tool_call\<close>, which sits behind the \<^verbatim>\<open>/tool_call\<close> endpoint,
  returns \<^verbatim>\<open>{"error": "no query"}\<close> for an empty (or missing) query and contacts no service:
  the trace is unchanged. The client-side \<^verbatim>\<open>_handle_tool_call\<close> does not look at the query:
  with an empty query it starts with the health probe; when the probe answers 200 it goes
  on to POST the tool call; when the probe answers another status or raises a
  RequestException it returns \<^verbatim>\<open>{"error": "MCP server not available"}\<close> after the probe.
\<close>

theorem empty_query_handler:
  "(dict_get tool_params ''query'' (JStr []) = Inr (JStr [])
      \<longrightarrow> handle_claude_tool_call w tool_params tr = (Inr (error_dict ''no query''), tr))
   \<and> (\<exists>rest. snd (handle_tool_call w (JObj [(''name'', n), (''parameters'', JObj [(''query'', JStr [])])]) tr) =
         tr @ [Dispatch (JObj [(''name'', n), (''parameters'', JObj [(''query'', JStr [])])]), Health_get] @ rest)
   \<and> (health w (calls is_health tr) = Returned h \<and> status_code h = 200
      \<longrightarrow> (\<exists>rest. snd (handle_tool_call w (JObj [(''name'', n), (''parameters'', JObj [(''query'', JStr [])])]) tr) =
            tr @ [Dispatch (JObj [(''name'', n), (''parameters'', JObj [(''query'', JStr [])])]), Health_get,
                  Tool_post (JObj [(''name'', n), (''parameters'', JObj [(''query'', JStr [])])])] @ rest))
   \<and> ((health w (calls is_health tr) = Returned h \<and> status_code h \<noteq> 200)
        \<or> (health w (calls is_health tr) = Raised e \<and> is_request_exception e)
      \<longrightarrow> handle_tool_call w (JObj [(''name'', n), (''parameters'', JObj [(''query'', JStr [])])]) tr =
           (Inr (error_dict ''MCP server not available''),
            tr @ [Dispatch (JObj [(''name'', n), (''parameters'', JObj [(''query'', JStr [])])]), Health_get]))"
proof -
  let ?p = "JObj [(''query'', JStr [])]"
  let ?tc = "JObj [(''name'', n), (''parameters'', ?p)]"
  let ?t0 = "tr @ [Dispatch ?tc, Health_get]"
  have a: "dict_get tool_params ''query'' (JStr []) = Inr (JStr [])
      \<longrightarrow> handle_claude_tool_call w tool_params tr = (Inr (error_dict ''no query''), tr)"
    by (simp add: handle_claude_tool_call_def)
  have ext: "\<exists>rest. snd (retry_loop w a b k t) = t @ rest" for a b k t
    using retry_loop_extends [of w a b k t] by blast
  have b: "\<exists>rest. snd (handle_tool_call w ?tc tr) = tr @ [Dispatch ?tc, Health_get] @ rest"
    using ext [of n ?p 0 ?t0]
    by (auto simp: handle_tool_call_def ClaudeClient_check_mcp_server_def get_health_def Let_def
             split: outcome.splits)
  have c: "\<exists>rest. snd (handle_tool_call w ?tc tr) = tr @ [Dispatch ?tc, Health_get, Tool_post ?tc] @ rest"
    if probe: "health w (calls is_health tr) = Returned h" "status_code h = 200"
  proof -
    have start: "handle_tool_call w ?tc tr = retry_loop w n ?p 0 ?t0"
      using probe by (rule handle_tool_call_available)
    show ?thesis
    proof (cases "tool_call_attempt (tool w (calls is_tool_post ?t0))")
      case (Inr v)
      have "retry_loop w n ?p 0 ?t0 = (Inr v, ?t0 @ [Tool_post ?tc])"
        by (rule retry_loop_success) (use Inr in \<open>simp_all add: max_retries_def\<close>)
      then show ?thesis unfolding start by simp
    next
      case (Inl e1)
      show ?thesis
      proof (cases "is_request_exception e1")
        case False
        have "retry_loop w n ?p 0 ?t0 = (Inl e1, ?t0 @ [Tool_post ?tc])"
          by (rule retry_loop_leaves) (use Inl False in \<open>simp_all add: max_retries_def\<close>)
        then show ?thesis unfolding start by simp
      next
        case True
        have "retry_loop w n ?p 0 ?t0 =
              retry_loop w n ?p (0 + 1) (?t0 @ [Tool_post ?tc, Sleep (2 ^ (0 + 1))])"
          by (rule retry_loop_again [where e = e1]) (use Inl True in \<open>simp_all add: max_retries_def\<close>)
        moreover obtain rest where
          "snd (retry_loop w n ?p (0 + 1) (?t0 @ [Tool_post ?tc, Sleep (2 ^ (0 + 1))])) =
             (?t0 @ [Tool_post ?tc, Sleep (2 ^ (0 + 1))]) @ rest"
          using ext by blast
        ultimately show ?thesis unfolding start by simp
      qed
    qed
  qed
  have d: "handle_tool_call w ?tc tr = (Inr (error_dict ''MCP server not available''), ?t0)"
    if "(health w (calls is_health tr) = Returned h \<and> status_code h \<noteq> 200)
        \<or> (health w (calls is_health tr) = Raised e \<and> is_request_exception e)"
    using that
    by (auto simp: handle_tool_call_def ClaudeClient_check_mcp_server_def get_health_def Let_def)
  from a b c d show ?thesis by blast
qed

theorem empty_query_handler_witness:
  "handle_claude_tool_call unreachable_world (JObj [(''query'', JStr [])]) [] =
     (Inr (error_dict ''no query''), [])
   \<and> (\<exists>rest. snd (handle_tool_call answering_no_query_world (fetch_call (JStr [])) []) =
         [Dispatch (fetch_call (JStr [])), Health_get, Tool_post (fetch_call (JStr []))] @ rest)
   \<and> handle_tool_call unreachable_world (fetch_call (JStr [])) [] =
       (Inr (error_dict ''MCP server not available''),
        [Dispatch (fetch_call (JStr [])), Health_get])"
  using empty_query_handler [where tool_params = "JObj [(''query'', JStr [])]"
          and w = unreachable_world and tr = "[]" and n = "JStr ''fetch_web_content''"
          and e = "Exc RequestException ''connection refused''"]
        empty_query_handler [where w = answering_no_query_world and tr = "[]"
          and n = "JStr ''fetch_web_content''"
          and h = "\<lparr>status_code = 200, raise_text = [],
                    json_body = Inr (JObj [(''status'', JStr ''ok'')])\<rparr>"]
  by (simp add: fetch_call_def unreachable_world_def answering_no_query_world_def
        connection_error_def ok_response_def is_request_exception_def)

subsection \<open>What the dispatcher retries\<close>

text \<open>
  C3 fails: a completed exchange with status 500 and a well-formed error body is retried
  like a transport failure, because \<^verbatim>\<open>raise_for_status\<close> raises HTTPError, which is a
  RequestException. Three POSTs are made.
\<close>

theorem error_status_counterexample:
  "snd (handle_tool_call error_status_world
          (fetch_call (JStr ''Eiffel Tower height'')) []) =
     [Dispatch (fetch_call (JStr ''Eiffel Tower height'')), Health_get,
      Tool_post (fetch_call (JStr ''Eiffel Tower height'')), Sleep 2,
      Tool_post (fetch_call (JStr ''Eiffel Tower height'')), Sleep 4,
      Tool_post (fetch_call (JStr ''Eiffel Tower height''))]
   \<and> calls is_tool_post (snd (handle_tool_call error_status_world
          (fetch_call (JStr ''Eiffel Tower height'')) [])) = 3"
  by (simp add: handle_tool_call_def ClaudeClient_check_mcp_server_def get_health_def
        error_status_world_def tool_world_def fetch_call_def ok_response_def status_response_def
        is_request_exception_def error_dict_def
        retry_loop.simps [of _ _ _ 0] retry_loop.simps [of _ _ _ "Suc 0"]
        retry_loop.simps [of _ _ _ "Suc (Suc 0)"] max_retries_def post_tool_call_def
        tool_call_attempt_def Let_def bind_exc_def raise_for_status_def http_error_status_def)

text \<open>
  C3 (amended). With the service available, a failed attempt is followed by another one
  (after a sleep of 2) exactly when the attempt raised a RequestException: a transport
  failure, a 4xx or 5xx status, or an undecodable body reported as one. A completed
  exchange with another status and a decodable body is returned at once, whatever the
  body says; an exception of another class leaves the method at once.
\<close>

theorem retry_on_request_exception:
  assumes "health w (calls is_health tr) = Returned h" and "status_code h = 200"
  shows "(tool w (calls is_tool_post tr) = Returned r \<and> \<not> http_error_status (status_code r)
            \<and> json_body r = Inr v
          \<longrightarrow> handle_tool_call w (JObj [(''name'', n), (''parameters'', p)]) tr =
               (Inr v, tr @ [Dispatch (JObj [(''name'', n), (''parameters'', p)]), Health_get,
                             Tool_post (JObj [(''name'', n), (''parameters'', p)])]))
       \<and> ((tool w (calls is_tool_post tr) = Raised e \<and> \<not> is_request_exception e)
            \<or> (tool w (calls is_tool_post tr) = Returned r \<and> \<not> http_error_status (status_code r)
                 \<and> json_body r = Inl e \<and> \<not> is_request_exception e)
          \<longrightarrow> handle_tool_call w (JObj [(''name'', n), (''parameters'', p)]) tr =
               (Inl e, tr @ [Dispatch (JObj [(''name'', n), (''parameters'', p)]), Health_get,
                             Tool_post (JObj [(''name'', n), (''parameters'', p)])]))
       \<and> ((tool w (calls is_tool_post tr) = Raised e \<and> is_request_exception e)
            \<or> (tool w (calls is_tool_post tr) = Returned r \<and> http_error_status (status_code r))
            \<or> (tool w (calls is_tool_post tr) = Returned r \<and> json_body r = Inl e
                 \<and> is_request_exception e)
          \<longrightarrow> (\<exists>rest. snd (handle_tool_call w (JObj [(''name'', n), (''parameters'', p)]) tr) =
                 tr @ [Dispatch (JObj [(''name'', n), (''parameters'', p)]), Health_get,
                       Tool_post (JObj [(''name'', n), (''parameters'', p)]), Sleep 2,
                       Tool_post (JObj [(''name'', n), (''parameters'', p)])] @ rest))"
proof -
  let ?tc = "JObj [(''name'', n), (''parameters'', p)]"
  let ?t0 = "tr @ [Dispatch ?tc, Health_get]"
  let ?t1 = "?t0 @ [Tool_post ?tc, Sleep (2 ^ (0 + 1))]"
  have start: "handle_tool_call w ?tc tr = retry_loop w n p 0 ?t0"
    using assms by (rule handle_tool_call_available)
  have no_retry: "handle_tool_call w ?tc tr = (Inr v, ?t0 @ [Tool_post ?tc])"
    if "tool w (calls is_tool_post tr) = Returned r" "\<not> http_error_status (status_code r)"
       "json_body r = Inr v"
    unfolding start
    by (rule retry_loop_success)
       (use that in \<open>simp_all add: max_retries_def tool_call_attempt_def bind_exc_def raise_for_status_def\<close>)
  have leaves: "handle_tool_call w ?tc tr = (Inl e, ?t0 @ [Tool_post ?tc])"
    if "(tool w (calls is_tool_post tr) = Raised e \<and> \<not> is_request_exception e)
          \<or> (tool w (calls is_tool_post tr) = Returned r \<and> \<not> http_error_status (status_code r)
               \<and> json_body r = Inl e \<and> \<not> is_request_exception e)"
  proof -
    from that have "tool_call_attempt (tool w (calls is_tool_post tr)) = Inl e"
      and "\<not> is_request_exception e"
      by (auto simp: tool_call_attempt_def bind_exc_def raise_for_status_def)
    then show ?thesis
      unfolding start
      by (intro retry_loop_leaves) (simp_all add: max_retries_def)
  qed
  have again: "\<exists>rest. snd (handle_tool_call w ?tc tr) = ?t1 @ [Tool_post ?tc] @ rest"
    if att: "tool_call_attempt (tool w (calls is_tool_post tr)) = Inl e'"
      and req: "is_request_exception e'" for e'
  proof -
    have first: "retry_loop w n p 0 ?t0 = retry_loop w n p (0 + 1) ?t1"
      by (rule retry_loop_again [where e = e']) (use att req in \<open>simp_all add: max_retries_def\<close>)
    have "\<exists>rest. snd (retry_loop w n p (0 + 1) ?t1) = ?t1 @ [Tool_post ?tc] @ rest"
    proof (cases "tool_call_attempt (tool w (calls is_tool_post ?t1))")
      case (Inr v')
      have "retry_loop w n p (0 + 1) ?t1 = (Inr v', ?t1 @ [Tool_post ?tc])"
        by (rule retry_loop_success) (use Inr in \<open>simp_all add: max_retries_def\<close>)
      then show ?thesis by simp
    next
      case (Inl e2)
      show ?thesis
      proof (cases "is_request_exception e2")
        case False
        have "retry_loop w n p (0 + 1) ?t1 = (Inl e2, ?t1 @ [Tool_post ?tc])"
          by (rule retry_loop_leaves) (use Inl False in \<open>simp_all add: max_retries_def\<close>)
        then show ?thesis by simp
      next
        case True
        have "retry_loop w n p (0 + 1) ?t1 =
              retry_loop w n p (0 + 1 + 1) (?t1 @ [Tool_post ?tc, Sleep (2 ^ (0 + 1 + 1))])"
          by (rule retry_loop_again [where e = e2]) (use Inl True in \<open>simp_all add: max_retries_def\<close>)
        moreover obtain rest where
          "snd (retry_loop w n p (0 + 1 + 1) (?t1 @ [Tool_post ?tc, Sleep (2 ^ (0 + 1 + 1))])) =
             (?t1 @ [Tool_post ?tc, Sleep (2 ^ (0 + 1 + 1))]) @ rest"
          using retry_loop_extends by blast
        ultimately show ?thesis by simp
      qed
    qed
    then show ?thesis unfolding start first .
  qed
  have retried: "\<exists>rest. snd (handle_tool_call w ?tc tr) = ?t1 @ [Tool_post ?tc] @ rest"
    if "(tool w (calls is_tool_post tr) = Raised e \<and> is_request_exception e)
            \<or> (tool w (calls is_tool_post tr) = Returned r \<and> http_error_status (status_code r))
            \<or> (tool w (calls is_tool_post tr) = Returned r \<and> json_body r = Inl e
                 \<and> is_request_exception e)"
  proof -
    from that have "\<exists>e'. tool_call_attempt (tool w (calls is_tool_post tr)) = Inl e'
        \<and> is_request_exception e'"
      by (auto simp: tool_call_attempt_def bind_exc_def raise_for_status_def is_request_exception_def)
    with again show ?thesis by blast
  qed
  from no_retry leaves retried show ?thesis by simp
qed

theorem retry_on_request_exception_witness:
  "handle_tool_call (tool_world (\<lambda>n. ok_response (error_dict ''no query''))) (fetch_call (JStr [])) [] =
     (Inr (error_dict ''no query''),
      [Dispatch (fetch_call (JStr [])), Health_get, Tool_post (fetch_call (JStr []))])
   \<and> handle_tool_call (tool_world (\<lambda>n. Raised (Exc OtherException ''boom''))) (fetch_call (JStr [])) [] =
     (Inl (Exc OtherException ''boom''),
      [Dispatch (fetch_call (JStr [])), Health_get, Tool_post (fetch_call (JStr []))])
   \<and> (\<exists>rest. snd (handle_tool_call
          (tool_world (\<lambda>n. status_response 500 (error_dict ''internal error'')))
          (fetch_call (JStr [])) []) =
        [Dispatch (fetch_call (JStr [])), Health_get, Tool_post (fetch_call (JStr [])), Sleep 2,
         Tool_post (fetch_call (JStr []))] @ rest)"
  using retry_on_request_exception [where w = "tool_world (\<lambda>n. ok_response (error_dict ''no query''))"
          and tr = "[]" and h = "\<lparr>status_code = 200, raise_text = [], json_body = Inr (JObj [(''status'', JStr ''ok'')])\<rparr>"
          and r = "\<lparr>status_code = 200, raise_text = [], json_body = Inr (error_dict ''no query'')\<rparr>"
          and v = "error_dict ''no query''" and n = "JStr ''fetch_web_content''"
          and p = "JObj [(''query'', JStr [])]"]
        retry_on_request_exception [where w = "tool_world (\<lambda>n. Raised (Exc OtherException ''boom''))"
          and tr = "[]" and h = "\<lparr>status_code = 200, raise_text = [], json_body = Inr (JObj [(''status'', JStr ''ok'')])\<rparr>"
          and e = "Exc OtherException ''boom''" and n = "JStr ''fetch_web_content''"
          and p = "JObj [(''query'', JStr [])]"]
        retry_on_request_exception [where w = "tool_world (\<lambda>n. status_response 500 (error_dict ''internal error''))"
          and tr = "[]" and h = "\<lparr>status_code = 200, raise_text = [], json_body = Inr (JObj [(''status'', JStr ''ok'')])\<rparr>"
          and r = "\<lparr>status_code = 500, raise_text = ''HTTP error'', json_body = Inr (error_dict ''internal error'')\<rparr>"
          and n = "JStr ''fetch_web_content''"
          and p = "JObj [(''query'', JStr [])]"]
  by (simp add: tool_world_def ok_response_def status_response_def fetch_call_def
        http_error_status_def is_request_exception_def)

subsection \<open>The front end\<close>

text \<open>
  C8 fails for the reachability check: the probe is made (by the constructor of the
  client) but its result is dropped, so the orchestrator runs although the probe failed.
\<close>

theorem front_end_counterexample:
  "main 1 paris_world
      (Some ''sk-key'') [''capital'', ''of'', ''France''] None =
     (Answer (JStr ''Paris is the capital of France.''),
      [Health_get, Llm_post (make_payload (opus ''sk-key'') [] ''capital of France'')])"
  by (simp add: main_def ClaudeClient_check_mcp_server_def get_health_def paris_world_def llm_world_def
        connection_error_def is_request_exception_def get_final_answer_def Let_def
        post_llm_def content_response_def ok_response_def llm_result_def bind_exc_def
        raise_for_status_def http_error_status_def tool_use_of_def text_block_def
        answer_of_def opus_def)

text \<open>
  C8 (amended). \<^verbatim>\<open>main\<close> exits with code 1 before any request when the credential is
  absent or empty. Otherwise it probes the health endpoint once and then invokes the
  orchestrator whatever the probe answered (a response of any status, or a
  RequestException): the outcome of \<^verbatim>\<open>main\<close> is the answer of \<^verbatim>\<open>get_final_answer\<close>.
\<close>

theorem front_end_checks:
  "(environ_key = None \<or> environ_key = Some []
      \<longrightarrow> main depth w environ_key args_query stdin_line = (Exit 1, []))
   \<and> (environ_key = Some key \<and> key \<noteq> []
        \<and> (if args_query \<noteq> [] then Some (join_spaces args_query) else stdin_line) = Some query
        \<and> (health w 0 = Returned h \<or> (health w 0 = Raised e \<and> is_request_exception e))
      \<longrightarrow> main depth w environ_key args_query stdin_line =
           (Answer (fst (get_final_answer depth w (opus key) query [Health_get])),
            snd (get_final_answer depth w (opus key) query [Health_get])))"
  by (auto simp: main_def ClaudeClient_check_mcp_server_def get_health_def opus_def Let_def
           split: prod.splits option.splits)

theorem front_end_checks_witness:
  "main 1 unreachable_world None [''capital'', ''of'', ''France''] None = (Exit 1, [])
   \<and> main 1 (llm_world connection_error (\<lambda>n. content_response [text_block ''Paris is the capital of France.'']))
        (Some ''sk-key'') [''capital'', ''of'', ''France''] None =
      (Answer (JStr ''Paris is the capital of France.''),
       [Health_get, Llm_post (make_payload (opus ''sk-key'') [] ''capital of France'')])"
  using front_end_checks [where environ_key = None and depth = 1 and w = unreachable_world
          and args_query = "[''capital'', ''of'', ''France'']" and stdin_line = None]
        front_end_checks [where environ_key = "Some ''sk-key''" and key = "''sk-key''" and depth = 1
          and w = "llm_world connection_error (\<lambda>n. content_response [text_block ''Paris is the capital of France.''])"
          and args_query = "[''capital'', ''of'', ''France'']" and stdin_line = None
          and query = "''capital of France''" and e = "Exc RequestException ''connection refused''"]
  by (simp add: llm_world_def
        connection_error_def is_request_exception_def get_final_answer_def Let_def
        post_llm_def content_response_def ok_response_def llm_result_def bind_exc_def
        raise_for_status_def http_error_status_def tool_use_of_def text_block_def
        answer_of_def opus_def)

subsection \<open>A failed LLM call\<close>

text \<open>
  C10 (amended). When the POST to the LLM raises, or completes with a 4xx or 5xx status
  (the ones \<^verbatim>\<open>raise_for_status\<close> rejects), \<^verbatim>\<open>send_message\<close> returns a dict with the single
  key \<^verbatim>\<open>error\<close> (so without \<^verbatim>\<open>content\<close>), and \<^verbatim>\<open>get_final_answer\<close> returns
  \<^verbatim>\<open>No clear answer found\<close>: the very answer it gives for a successful response whose
  content holds no text block.
\<close>

theorem llm_failure_gives_sentinel:
  assumes "api_key cfg \<noteq> []"
    and "llm w (calls is_llm_post tr) = Raised e
         \<or> (llm w (calls is_llm_post tr) = Returned r \<and> http_error_status (status_code r))"
  shows "\<exists>m. send_message (Suc depth) w cfg message conversation_history tr =
               (Inr (JObj [(''error'', JStr m)]),
                tr @ [Llm_post (make_payload cfg conversation_history message)])
          \<and> py_contains (JObj [(''error'', JStr m)]) ''content'' = Inr False
          \<and> get_final_answer (Suc depth) w cfg message tr =
               (JStr ''No clear answer found'', tr @ [Llm_post (make_payload cfg [] message)])
          \<and> fst (get_final_answer (Suc depth) (w\<lparr>llm := \<lambda>n. content_response []\<rparr>) cfg message tr) =
               JStr ''No clear answer found''"
proof -
  have "\<exists>e'. llm_result (llm w (calls is_llm_post tr)) = Inl e'"
    using assms(2)
    by (cases "json_body r")
       (auto simp: llm_result_def bind_exc_def raise_for_status_def)
  then obtain e' where res: "llm_result (llm w (calls is_llm_post tr)) = Inl e'"
    by blast
  have send: "send_message (Suc depth) w cfg message hist tr =
      (Inr (JObj [(''error'', JStr (str_exc e'))]), tr @ [Llm_post (make_payload cfg hist message)])"
    for hist
    using assms(1) res by (simp add: Let_def post_llm_def error_dict_def)
  have absent: "py_contains (JObj [(''error'', JStr (str_exc e'))]) ''content'' = Inr False"
    by simp
  have final: "get_final_answer (Suc depth) w cfg message tr =
      (JStr ''No clear answer found'', tr @ [Llm_post (make_payload cfg [] message)])"
    by (simp add: get_final_answer_def send answer_of_def bind_exc_def del: send_message.simps)
  have same: "fst (get_final_answer (Suc depth) (w\<lparr>llm := \<lambda>n. content_response []\<rparr>) cfg message tr) =
      JStr ''No clear answer found''"
    using assms(1)
    by (simp add: get_final_answer_def Let_def post_llm_def content_response_def ok_response_def
          llm_result_def bind_exc_def raise_for_status_def http_error_status_def tool_use_of_def
          answer_of_def)
  from send [of conversation_history] absent final same show ?thesis by blast
qed

theorem llm_failure_gives_sentinel_witness:
  "(\<exists>m. send_message 1 unreachable_world (opus ''sk-key'') ''capital of France'' [] [] =
          (Inr (JObj [(''error'', JStr m)]),
           [Llm_post (make_payload (opus ''sk-key'') [] ''capital of France'')]))
   \<and> get_final_answer 1 unreachable_world (opus ''sk-key'') ''capital of France'' [] =
       (JStr ''No clear answer found'',
        [Llm_post (make_payload (opus ''sk-key'') [] ''capital of France'')])
   \<and> (\<exists>m. send_message 1 (llm_world connection_error (\<lambda>n. status_response 529 (error_dict ''overloaded'')))
            (opus ''sk-key'') ''capital of France'' [] [] =
          (Inr (JObj [(''error'', JStr m)]),
           [Llm_post (make_payload (opus ''sk-key'') [] ''capital of France'')]))"
  using llm_failure_gives_sentinel [where cfg = "opus ''sk-key''" and w = unreachable_world
          and tr = "[]" and e = "Exc RequestException ''connection refused''" and depth = 0
          and message = "''capital of France''" and conversation_history = "[]"]
        llm_failure_gives_sentinel [where cfg = "opus ''sk-key''"
          and w = "llm_world connection_error (\<lambda>n. status_response 529 (error_dict ''overloaded''))"
          and tr = "[]" and depth = 0
          and r = "\<lparr>status_code = 529, raise_text = ''HTTP error'', json_body = Inr (error_dict ''overloaded'')\<rparr>"
          and message = "''capital of France''" and conversation_history = "[]"]
  by (simp add: opus_def unreachable_world_def connection_error_def llm_world_def
        status_response_def http_error_status_def del: send_message.simps)

text \<open>
  C10 fails for a non-success status outside 4xx and 5xx: for a 300 the code prints the
  body and goes on, \<^verbatim>\<open>send_message\<close> returns the body with its \<^verbatim>\<open>content\<close>, and the answer
  is the text block, not the sentinel.
\<close>

theorem multiple_choices_llm_counterexample:
  "send_message 1 multiple_choices_llm_world (opus ''sk-key'') ''capital of France'' [] [] =
     (Inr (JObj [(''content'', JArr [text_block ''Paris is the capital of France.''])]),
      [Llm_post (make_payload (opus ''sk-key'') [] ''capital of France'')])
   \<and> fst (get_final_answer 1 multiple_choices_llm_world (opus ''sk-key'') ''capital of France'' []) =
       JStr ''Paris is the capital of France.''
   \<and> fst (get_final_answer 1 multiple_choices_llm_world (opus ''sk-key'') ''capital of France'' []) \<noteq>
       JStr ''No clear answer found''"
  by (simp add: get_final_answer_def Let_def post_llm_def multiple_choices_llm_world_def
        llm_world_def llm_result_def bind_exc_def raise_for_status_def http_error_status_def
        tool_use_of_def text_block_def answer_of_def opus_def)

subsection \<open>One step of the orchestrator\<close>

lemma llm_result_ok:
  assumes "out = Returned r" and "\<not> http_error_status (status_code r)" and "json_body r = Inr v"
  shows "llm_result out = Inr v"
  using assms by (simp add: llm_result_def bind_exc_def raise_for_status_def)

lemma first_tool_use_none:
  "list_all (\<lambda>b. is_dict b \<and> \<not> is_tool_use_block b) blocks \<Longrightarrow> first_tool_use blocks = Inr None"
proof (induction blocks)
  case Nil
  show ?case by simp
next
  case (Cons b blocks)
  then obtain kvs where "b = JObj kvs"
    by (cases b) (simp_all add: is_dict_def)
  with Cons show ?case
    by (simp add: bind_exc_def is_tool_use_block_def)
qed

lemma first_tool_use_first:
  assumes "list_all (\<lambda>b. is_dict b \<and> \<not> is_tool_use_block b) pre" and "is_tool_use_block b"
  shows "first_tool_use (pre @ b # post) = Inr (Some b)"
  using assms
proof (induction pre)
  case Nil
  then obtain kvs where "b = JObj kvs"
    by (cases b) (simp_all add: is_tool_use_block_def)
  with Nil show ?case
    by (simp add: bind_exc_def is_tool_use_block_def)
next
  case (Cons a pre)
  then obtain kvs where "a = JObj kvs"
    by (cases a) (simp_all add: is_dict_def)
  with Cons show ?case
    by (simp add: bind_exc_def is_tool_use_block_def)
qed

lemma first_text_find:
  "list_all is_dict blocks \<Longrightarrow>
   first_text blocks = Inr (map_option block_text (find is_text_block blocks))"
proof (induction blocks)
  case Nil
  show ?case by simp
next
  case (Cons b blocks)
  then obtain kvs where "b = JObj kvs"
    by (cases b) (simp_all add: is_dict_def)
  with Cons show ?case
    by (simp add: bind_exc_def is_text_block_def block_text_def)
qed

lemma tool_use_of_content:
  "map_of kvs ''content'' = Some (JArr blocks) \<Longrightarrow> tool_use_of (JObj kvs) = first_tool_use blocks"
  by (simp add: tool_use_of_def bind_exc_def)

lemma tool_use_of_no_content:
  "map_of kvs ''content'' = None \<Longrightarrow> tool_use_of (JObj kvs) = Inr None"
  by (simp add: tool_use_of_def bind_exc_def)

lemma answer_of_content:
  assumes "map_of kvs ''content'' = Some (JArr blocks)" and "list_all is_dict blocks"
  shows "answer_of (JObj kvs) =
         Inr (case find is_text_block blocks of
                Some b \<Rightarrow> block_text b | None \<Rightarrow> JStr ''No clear answer found'')"
  using assms by (simp add: answer_of_def bind_exc_def first_text_find split: option.splits)

lemma answer_of_no_content:
  "map_of kvs ''content'' = None \<Longrightarrow> answer_of (JObj kvs) = Inr (JStr ''No clear answer found'')"
  by (simp add: answer_of_def bind_exc_def)

lemma send_message_no_tool:
  assumes "api_key cfg \<noteq> []"
    and "llm_result (llm w (calls is_llm_post tr)) = Inr result"
    and "tool_use_of result = Inr None"
  shows "send_message (Suc depth) w cfg message hist tr =
         (Inr result, tr @ [Llm_post (make_payload cfg hist message)])"
  using assms by (simp add: Let_def post_llm_def)

lemma send_message_round_trip:
  assumes "api_key cfg \<noteq> []"
    and "llm_result (llm w (calls is_llm_post tr)) = Inr result"
    and "tool_use_of result = Inr (Some b)"
    and "make_tool_call b = Inr tc"
    and "handle_tool_call w tc (tr @ [Llm_post (make_payload cfg hist message)]) = (Inr resp, tr2)"
    and "bind_exc (tool_description resp) (assistant_text result) = Inr t"
  shows "send_message (Suc depth) w cfg message hist tr =
         except_exception
           (send_message depth w cfg summarize_request
              (hist @ [user_turn message, assistant_turn t]) tr2)"
  using assms by (simp add: Let_def post_llm_def)

lemma except_exception_value [simp]: "except_exception (Inr v, tr) = (Inr v, tr)"
  by (simp add: except_exception_def)

lemma except_exception_raised [simp]:
  "except_exception (Inl e, tr) = (Inr (error_dict (str_exc e)), tr)"
  by (simp add: except_exception_def)

lemma snd_except_exception [simp]: "snd (except_exception r) = snd r"
  by (cases r, cases "fst r") (simp_all add: except_exception_def)

subsection \<open>A response without a tool-use block\<close>

text \<open>
  C5 (amended). When the LLM is given a key and answers with a response whose content
  blocks are objects none of which has type \<^verbatim>\<open>tool_use\<close>, \<^verbatim>\<open>get_final_answer\<close> returns the
  text of the first block of type \<^verbatim>\<open>text\<close>, or \<^verbatim>\<open>No clear answer found\<close> when there is none
  (or no content at all); the only request made is the one POST to the LLM, and the tool
  dispatcher is not entered.
\<close>

theorem tool_free_response_answer:
  assumes "api_key cfg \<noteq> []"
    and "llm w (calls is_llm_post tr) = Returned r"
    and "\<not> http_error_status (status_code r)"
    and "json_body r = Inr (JObj kvs)"
    and "map_of kvs ''content'' = Some (JArr blocks)
         \<or> (map_of kvs ''content'' = None \<and> blocks = [])"
    and "list_all (\<lambda>b. is_dict b \<and> \<not> is_tool_use_block b) blocks"
  shows "get_final_answer (Suc depth) w cfg message tr =
           ((case find is_text_block blocks of
               Some b \<Rightarrow> block_text b | None \<Rightarrow> JStr ''No clear answer found''),
            tr @ [Llm_post (make_payload cfg [] message)])
         \<and> calls is_dispatch (snd (get_final_answer (Suc depth) w cfg message tr)) =
           calls is_dispatch tr"
proof -
  have res: "llm_result (llm w (calls is_llm_post tr)) = Inr (JObj kvs)"
    using assms(2,3,4) by (rule llm_result_ok)
  have dicts: "list_all is_dict blocks"
    using assms(6) by (induction blocks) simp_all
  have no_tool: "tool_use_of (JObj kvs) = Inr None"
    using assms(5,6) by (auto simp: tool_use_of_content tool_use_of_no_content first_tool_use_none)
  have send: "send_message (Suc depth) w cfg message [] tr =
      (Inr (JObj kvs), tr @ [Llm_post (make_payload cfg [] message)])"
    using assms(1) res no_tool by (rule send_message_no_tool)
  have ans: "answer_of (JObj kvs) =
      Inr (case find is_text_block blocks of
             Some b \<Rightarrow> block_text b | None \<Rightarrow> JStr ''No clear answer found'')"
    using assms(5) dicts by (auto simp: answer_of_content answer_of_no_content)
  show ?thesis
    by (simp add: get_final_answer_def send ans del: send_message.simps)
qed

theorem tool_free_response_answer_witness:
  "get_final_answer 1
      (llm_world connection_error (\<lambda>n. content_response [text_block ''Paris is the capital of France.'']))
      (opus ''sk-key'') ''capital of France'' [] =
     (JStr ''Paris is the capital of France.'',
      [Llm_post (make_payload (opus ''sk-key'') [] ''capital of France'')])
   \<and> get_final_answer 1 (llm_world connection_error (\<lambda>n. content_response []))
      (opus ''sk-key'') ''capital of France'' [] =
     (JStr ''No clear answer found'',
      [Llm_post (make_payload (opus ''sk-key'') [] ''capital of France'')])"
  using tool_free_response_answer [where cfg = "opus ''sk-key''" and tr = "[]" and depth = 0
          and w = "llm_world connection_error (\<lambda>n. content_response [text_block ''Paris is the capital of France.''])"
          and r = "\<lparr>status_code = 200, raise_text = [],
                    json_body = Inr (JObj [(''content'', JArr [text_block ''Paris is the capital of France.''])])\<rparr>"
          and kvs = "[(''content'', JArr [text_block ''Paris is the capital of France.''])]"
          and blocks = "[text_block ''Paris is the capital of France.'']"
          and message = "''capital of France''"]
        tool_free_response_answer [where cfg = "opus ''sk-key''" and tr = "[]" and depth = 0
          and w = "llm_world connection_error (\<lambda>n. content_response [])"
          and r = "\<lparr>status_code = 200, raise_text = [], json_body = Inr (JObj [(''content'', JArr [])])\<rparr>"
          and kvs = "[(''content'', JArr [])]" and blocks = "[]"
          and message = "''capital of France''"]
  by (simp add: opus_def llm_world_def content_response_def ok_response_def text_block_def
        http_error_status_def is_dict_def is_tool_use_block_def is_text_block_def block_text_def
        del: send_message.simps)

text \<open>
  The sentinel is \<^verbatim>\<open>No clear answer found\<close>, not the string C5 quotes
  (\<^verbatim>\<open>no clear answer found.\<close>, with or without the full stop).
\<close>

theorem sentinel_counterexample:
  "fst (get_final_answer 1 no_text_world
          (opus ''sk-key'') ''capital of France'' []) = JStr ''No clear answer found''
   \<and> fst (get_final_answer 1 no_text_world
          (opus ''sk-key'') ''capital of France'' []) \<noteq> JStr ''no clear answer found.''
   \<and> fst (get_final_answer 1 no_text_world
          (opus ''sk-key'') ''capital of France'' []) \<noteq> JStr ''no clear answer found''"
  by (simp add: get_final_answer_def Let_def post_llm_def no_text_world_def llm_world_def content_response_def
        ok_response_def llm_result_def bind_exc_def raise_for_status_def http_error_status_def
        tool_use_of_def answer_of_def opus_def)

subsection \<open>What a dispatch adds to the trace\<close>

lemma handle_tool_call_extends:
  "\<exists>rest. snd (handle_tool_call w tc tr) = tr @ Dispatch tc # rest
          \<and> list_all (\<lambda>e. is_health e \<or> is_tool_post e \<or> is_sleep e) rest"
proof (cases "\<exists>n p. dict_get tc ''name'' JNull = Inr n \<and> dict_get tc ''parameters'' JNull = Inr p
          \<and> ClaudeClient_check_mcp_server w (tr @ [Dispatch tc]) = (Inr True, tr @ [Dispatch tc, Health_get])")
  case True
  then obtain n p where *: "dict_get tc ''name'' JNull = Inr n"
      "dict_get tc ''parameters'' JNull = Inr p"
      "ClaudeClient_check_mcp_server w (tr @ [Dispatch tc]) = (Inr True, tr @ [Dispatch tc, Health_get])"
    by blast
  obtain rest where rest: "snd (retry_loop w n p 0 (tr @ [Dispatch tc, Health_get])) =
      (tr @ [Dispatch tc, Health_get]) @ rest"
      and kinds: "list_all (\<lambda>e. is_tool_post e \<or> is_sleep e) rest"
    using retry_loop_extends by blast
  have "snd (handle_tool_call w tc tr) = tr @ Dispatch tc # (Health_get # rest)"
    using * rest by (simp add: handle_tool_call_def)
  moreover have "list_all (\<lambda>e. is_health e \<or> is_tool_post e \<or> is_sleep e) (Health_get # rest)"
    using kinds by (induction rest) auto
  ultimately show ?thesis by blast
next
  case False
  then have "snd (handle_tool_call w tc tr) = tr @ Dispatch tc # []
      \<or> snd (handle_tool_call w tc tr) = tr @ Dispatch tc # [Health_get]"
    by (auto simp: handle_tool_call_def ClaudeClient_check_mcp_server_def get_health_def Let_def
             split: sum.splits outcome.splits if_splits)
  then show ?thesis
    by (elim disjE) (rule exI [of _ "[]"], simp, rule exI [of _ "[Health_get]"], simp)
qed

lemma handle_tool_call_dispatches:
  "filter is_dispatch (snd (handle_tool_call w tc tr)) = filter is_dispatch tr @ [Dispatch tc]"
proof -
  obtain rest where rest: "snd (handle_tool_call w tc tr) = tr @ Dispatch tc # rest"
    and kinds: "list_all (\<lambda>e. is_health e \<or> is_tool_post e \<or> is_sleep e) rest"
    using handle_tool_call_extends by blast
  have "filter is_dispatch rest = []"
    using kinds by (induction rest) (auto elim: is_dispatch.elims)
  with rest show ?thesis by simp
qed

lemma handle_tool_call_llm_calls:
  "filter is_llm_post (snd (handle_tool_call w tc tr)) = filter is_llm_post tr"
proof -
  obtain rest where rest: "snd (handle_tool_call w tc tr) = tr @ Dispatch tc # rest"
    and kinds: "list_all (\<lambda>e. is_health e \<or> is_tool_post e \<or> is_sleep e) rest"
    using handle_tool_call_extends by blast
  have "filter is_llm_post rest = []"
    using kinds by (induction rest) (auto elim: is_llm_post.elims)
  with rest show ?thesis by simp
qed

subsection \<open>A response with tool-use blocks\<close>

text \<open>
  C7. Let the LLM answer the query with a response whose content holds a block of type
  \<^verbatim>\<open>tool_use\<close>, preceded only by objects of other types and followed by anything (other
  tool-use blocks included). Let the dispatcher return a result whose description is a
  string, and let the answer to the forced follow-up request be free of tool-use blocks
  and hold a text block. Then the dispatcher is entered exactly once, with the name and
  the \<^verbatim>\<open>input.query\<close> of that first block (an empty dict when the query is missing), and
  \<^verbatim>\<open>get_final_answer\<close> returns the text of the follow-up answer.
\<close>

theorem first_tool_use_block_wins:
  assumes key: "api_key cfg \<noteq> []"
    and first: "llm w (calls is_llm_post tr) = Returned r1"
      "\<not> http_error_status (status_code r1)" "json_body r1 = Inr (JObj kvs1)"
      "map_of kvs1 ''content'' = Some (JArr (pre @ JObj bkvs # post))"
    and pre: "list_all (\<lambda>x. is_dict x \<and> \<not> is_tool_use_block x) pre"
    and block: "map_of bkvs ''type'' = Some (JStr ''tool_use'')"
      "map_of bkvs ''input'' = Some (JObj ikvs) \<or> (map_of bkvs ''input'' = None \<and> ikvs = [])"
    and call: "tool_call =
        JObj [(''name'', case map_of bkvs ''name'' of Some x \<Rightarrow> x | None \<Rightarrow> JStr []),
              (''parameters'',
               JObj [(''query'', case map_of ikvs ''query'' of Some x \<Rightarrow> x | None \<Rightarrow> JObj [])])]"
    and dispatched: "handle_tool_call w tool_call (tr @ [Llm_post (make_payload cfg [] message)]) =
        (Inr tool_response, tr2)"
    and descr: "tool_description tool_response = Inr (JStr d)"
    and leading: "block_text (hd (pre @ [JObj bkvs])) = JStr lead"
    and second: "llm w (Suc (calls is_llm_post tr)) = Returned r2"
      "\<not> http_error_status (status_code r2)" "json_body r2 = Inr (JObj kvs2)"
      "map_of kvs2 ''content'' = Some (JArr blocks2)"
      "list_all (\<lambda>x. is_dict x \<and> \<not> is_tool_use_block x) blocks2"
      "find is_text_block blocks2 = Some summary"
  shows "get_final_answer (Suc (Suc depth)) w cfg message tr =
           (block_text summary,
            tr2 @ [Llm_post (make_payload cfg
                     [user_turn message, assistant_turn (JStr (lead @ injected_sentence @ d))]
                     summarize_request)])
         \<and> filter is_dispatch (snd (get_final_answer (Suc (Suc depth)) w cfg message tr)) =
           filter is_dispatch tr @ [Dispatch tool_call]"
proof -
  let ?b = "JObj bkvs"
  let ?tr1 = "tr @ [Llm_post (make_payload cfg [] message)]"
  let ?hist = "[user_turn message, assistant_turn (JStr (lead @ injected_sentence @ d))]"
  have res1: "llm_result (llm w (calls is_llm_post tr)) = Inr (JObj kvs1)"
    using first(1,2,3) by (rule llm_result_ok)
  have tool_block: "is_tool_use_block ?b"
    using block(1) by (simp add: is_tool_use_block_def)
  have found: "tool_use_of (JObj kvs1) = Inr (Some ?b)"
    using first(4) pre tool_block by (simp add: tool_use_of_content first_tool_use_first)
  have made: "make_tool_call ?b = Inr tool_call"
    using block(2) call by (auto simp: make_tool_call_def bind_exc_def)
  have first_block: "py_index0 (JArr (pre @ ?b # post)) = Inr (hd (pre @ [?b]))"
    by (cases pre) simp_all
  have first_dict: "is_dict (hd (pre @ [?b]))"
    using pre by (cases pre) (simp_all add: is_dict_def)
  then obtain fkvs where fkvs: "hd (pre @ [?b]) = JObj fkvs"
    by (cases "hd (pre @ [?b])") (simp_all add: is_dict_def)
  have lead_get: "dict_get (hd (pre @ [?b])) ''text'' (JStr []) = Inr (JStr lead)"
    using leading by (simp add: fkvs block_text_def)
  have joined: "bind_exc (tool_description tool_response) (assistant_text (JObj kvs1)) =
      Inr (JStr (lead @ injected_sentence @ d))"
    using first(4) first_block lead_get
    by (simp add: descr bind_exc_def assistant_text_def py_add_def)
  have step: "send_message (Suc (Suc depth)) w cfg message [] tr =
      except_exception (send_message (Suc depth) w cfg summarize_request ?hist tr2)"
    using send_message_round_trip [OF key res1 found made dispatched joined, of "Suc depth"]
    by (simp del: send_message.simps)
  have tr2_llm: "calls is_llm_post tr2 = Suc (calls is_llm_post tr)"
    using handle_tool_call_llm_calls [of w tool_call ?tr1] dispatched
    by (simp add: calls_def)
  have res2: "llm_result (llm w (calls is_llm_post tr2)) = Inr (JObj kvs2)"
    using second(1,2,3) unfolding tr2_llm by (rule llm_result_ok)
  have no_tool: "tool_use_of (JObj kvs2) = Inr None"
    using second(4,5) by (simp add: tool_use_of_content first_tool_use_none)
  have final: "send_message (Suc depth) w cfg summarize_request ?hist tr2 =
      (Inr (JObj kvs2), tr2 @ [Llm_post (make_payload cfg ?hist summarize_request)])"
    using key res2 no_tool by (rule send_message_no_tool)
  have dicts: "list_all is_dict blocks2"
    using second(5) by (induction blocks2) simp_all
  have ans: "answer_of (JObj kvs2) = Inr (block_text summary)"
    using second(4,6) dicts by (simp add: answer_of_content)
  have result: "get_final_answer (Suc (Suc depth)) w cfg message tr =
      (block_text summary, tr2 @ [Llm_post (make_payload cfg ?hist summarize_request)])"
    by (simp add: get_final_answer_def step final ans del: send_message.simps)
  have "filter is_dispatch tr2 = filter is_dispatch tr @ [Dispatch tool_call]"
    using handle_tool_call_dispatches [of w tool_call ?tr1] dispatched by simp
  with result show ?thesis by simp
qed

theorem first_tool_use_block_wins_witness:
  "get_final_answer 2 eiffel_world (opus ''sk-key'') ''How tall is the Eiffel Tower?'' [] =
     (JStr ''The Eiffel Tower is 330 meters tall.'',
      [Llm_post (make_payload (opus ''sk-key'') [] ''How tall is the Eiffel Tower?''),
       Dispatch (fetch_call (JStr ''Eiffel Tower height'')), Health_get,
       Tool_post (fetch_call (JStr ''Eiffel Tower height'')),
       Llm_post (make_payload (opus ''sk-key'')
          [user_turn ''How tall is the Eiffel Tower?'',
           assistant_turn (JStr (injected_sentence @ ''The Eiffel Tower is 330 metres tall.''))]
          summarize_request)])
   \<and> filter is_dispatch (snd (get_final_answer 2 eiffel_world (opus ''sk-key'')
        ''How tall is the Eiffel Tower?'' [])) = [Dispatch (fetch_call (JStr ''Eiffel Tower height''))]"
proof -
  let ?tc = "fetch_call (JStr ''Eiffel Tower height'')"
  let ?tr1 = "[Llm_post (make_payload (opus ''sk-key'') [] ''How tall is the Eiffel Tower?'')]"
  have dispatched: "handle_tool_call eiffel_world ?tc ([] @ ?tr1) =
      (Inr eiffel_results, ?tr1 @ [Dispatch ?tc, Health_get, Tool_post ?tc])"
    by (simp add: handle_tool_call_def ClaudeClient_check_mcp_server_def get_health_def
          eiffel_world_def fetch_call_def ok_response_def
          retry_loop.simps [of _ _ _ 0] max_retries_def post_tool_call_def tool_call_attempt_def
          bind_exc_def raise_for_status_def http_error_status_def Let_def)
  have descr: "tool_description eiffel_results = Inr (JStr ''The Eiffel Tower is 330 metres tall.'')"
    by (simp add: tool_description_def eiffel_results_def bind_exc_def)
  show ?thesis
    using first_tool_use_block_wins [where cfg = "opus ''sk-key''" and w = eiffel_world and tr = "[]"
        and ?r1.0 = "\<lparr>status_code = 200, raise_text = [],
              json_body = Inr (JObj [(''content'', JArr [tool_use_block ''Eiffel Tower height'',
                                          tool_use_block ''Louvre opening hours''])])\<rparr>"
        and ?kvs1.0 = "[(''content'', JArr [tool_use_block ''Eiffel Tower height'',
                                          tool_use_block ''Louvre opening hours''])]"
        and pre = "[]" and post = "[tool_use_block ''Louvre opening hours'']"
        and bkvs = "[(''type'', JStr ''tool_use''), (''name'', JStr ''fetch_web_content''),
                     (''input'', JObj [(''query'', JStr ''Eiffel Tower height'')])]"
        and ikvs = "[(''query'', JStr ''Eiffel Tower height'')]"
        and tool_call = ?tc and message = "''How tall is the Eiffel Tower?''"
        and tool_response = eiffel_results
        and ?tr2.0 = "?tr1 @ [Dispatch ?tc, Health_get, Tool_post ?tc]"
        and d = "''The Eiffel Tower is 330 metres tall.''" and lead = "[]"
        and ?r2.0 = "\<lparr>status_code = 200, raise_text = [],
              json_body = Inr (JObj [(''content'', JArr [text_block ''The Eiffel Tower is 330 meters tall.''])])\<rparr>"
        and ?kvs2.0 = "[(''content'', JArr [text_block ''The Eiffel Tower is 330 meters tall.''])]"
        and ?blocks2.0 = "[text_block ''The Eiffel Tower is 330 meters tall.'']"
        and summary = "text_block ''The Eiffel Tower is 330 meters tall.''" and depth = 0]
      dispatched descr
    by (simp add: opus_def eiffel_world_def content_response_def ok_response_def
          tool_use_block_def text_block_def fetch_call_def http_error_status_def
          is_dict_def is_tool_use_block_def is_text_block_def block_text_def numeral_2_eq_2
          del: send_message.simps)
qed

subsection \<open>No cap on the recursion but the interpreter's\<close>

lemma send_message_always_tool:
  assumes key: "api_key cfg \<noteq> []"
    and always: "\<forall>n. \<exists>result b tc.
        llm_result (llm w n) = Inr result \<and> tool_use_of result = Inr (Some b)
        \<and> make_tool_call b = Inr tc
        \<and> (\<forall>tr. \<exists>resp tr2 t. handle_tool_call w tc tr = (Inr resp, tr2)
              \<and> bind_exc (tool_description resp) (assistant_text result) = Inr t)"
  shows "fst (send_message depth w cfg message hist tr) =
           (if depth = 0 then Inl (Exc RecursionError ''maximum recursion depth exceeded'')
            else Inr (error_dict ''maximum recursion depth exceeded''))
       \<and> calls is_dispatch (snd (send_message depth w cfg message hist tr)) =
         calls is_dispatch tr + depth"
proof (induction depth arbitrary: message hist tr)
  case 0
  show ?case by simp
next
  case (Suc depth)
  let ?tr1 = "tr @ [Llm_post (make_payload cfg hist message)]"
  from always obtain result b tc where
    res: "llm_result (llm w (calls is_llm_post tr)) = Inr result"
    and found: "tool_use_of result = Inr (Some b)"
    and made: "make_tool_call b = Inr tc"
    and completes: "\<forall>tr. \<exists>resp tr2 t. handle_tool_call w tc tr = (Inr resp, tr2)
              \<and> bind_exc (tool_description resp) (assistant_text result) = Inr t"
    by blast
  from completes obtain resp tr2 t where
    dispatched: "handle_tool_call w tc ?tr1 = (Inr resp, tr2)"
    and joined: "bind_exc (tool_description resp) (assistant_text result) = Inr t"
    by blast
  let ?next = "send_message depth w cfg summarize_request
        (hist @ [user_turn message, assistant_turn t]) tr2"
  have step: "send_message (Suc depth) w cfg message hist tr = except_exception ?next"
    using key res found made dispatched joined by (rule send_message_round_trip)
  have "filter is_dispatch tr2 = filter is_dispatch ?tr1 @ [Dispatch tc]"
    using handle_tool_call_dispatches [of w tc ?tr1] dispatched by simp
  then have count: "calls is_dispatch tr2 = Suc (calls is_dispatch tr)"
    by (simp add: calls_def)
  from Suc.IH [of summarize_request "hist @ [user_turn message, assistant_turn t]" tr2]
  have ih: "fst ?next =
           (if depth = 0 then Inl (Exc RecursionError ''maximum recursion depth exceeded'')
            else Inr (error_dict ''maximum recursion depth exceeded''))"
    and ih_count: "calls is_dispatch (snd ?next) = calls is_dispatch tr2 + depth"
    by simp_all
  have "fst (except_exception ?next) = Inr (error_dict ''maximum recursion depth exceeded'')"
    using ih by (cases ?next) (auto simp: except_exception_def split: if_splits)
  then show ?case
    unfolding step using ih_count count by simp
qed

text \<open>
  C9 (amended). The orchestrator puts no cap of its own on tool round-trips. Let the LLM
  answer every request with a well-formed response that holds a tool-use block, and let
  every dispatch return a result from which the assistant turn can be built. Then a run
  makes as many round-trips as the interpreter's recursion limit lets \<^verbatim>\<open>send_message\<close> nest,
  so that no number bounds the round-trips for every limit. The recursion is not
  unbounded, though: at the limit the RecursionError is caught by the \<^verbatim>\<open>except Exception\<close>
  around the self-call, \<^verbatim>\<open>send_message\<close> returns an error dict, and \<^verbatim>\<open>get_final_answer\<close>
  returns \<^verbatim>\<open>No clear answer found\<close>.
\<close>

theorem recursion_limit_is_the_only_cap:
  assumes "api_key cfg \<noteq> []"
    and "\<forall>n. \<exists>result b tc.
        llm_result (llm w n) = Inr result \<and> tool_use_of result = Inr (Some b)
        \<and> make_tool_call b = Inr tc
        \<and> (\<forall>tr. \<exists>resp tr2 t. handle_tool_call w tc tr = (Inr resp, tr2)
              \<and> bind_exc (tool_description resp) (assistant_text result) = Inr t)"
  shows "calls is_dispatch (snd (get_final_answer depth w cfg message tr)) =
           calls is_dispatch tr + depth
       \<and> fst (get_final_answer (Suc depth) w cfg message tr) = JStr ''No clear answer found''
       \<and> \<not> (\<exists>k. \<forall>limit. calls is_dispatch (snd (get_final_answer limit w cfg message tr)) \<le> k)"
proof -
  have trace: "snd (get_final_answer d w cfg message tr) = snd (send_message d w cfg message [] tr)"
    for d
    by (simp add: get_final_answer_def split: prod.splits sum.splits del: send_message.simps)
  have count: "calls is_dispatch (snd (get_final_answer d w cfg message tr)) =
      calls is_dispatch tr + d" for d
    unfolding trace using send_message_always_tool [OF assms, of d message "[]" tr] by simp
  have "fst (send_message (Suc depth) w cfg message [] tr) =
      Inr (error_dict ''maximum recursion depth exceeded'')"
    using send_message_always_tool [OF assms, of "Suc depth" message "[]" tr] by simp
  then have answer: "fst (get_final_answer (Suc depth) w cfg message tr) =
      JStr ''No clear answer found''"
    by (cases "send_message (Suc depth) w cfg message [] tr")
       (simp add: get_final_answer_def answer_of_def bind_exc_def error_dict_def
          del: send_message.simps)
  have "\<not> (\<forall>limit. calls is_dispatch (snd (get_final_answer limit w cfg message tr)) \<le> k)" for k
  proof
    assume "\<forall>limit. calls is_dispatch (snd (get_final_answer limit w cfg message tr)) \<le> k"
    then have "calls is_dispatch (snd (get_final_answer (Suc k) w cfg message tr)) \<le> k"
      by blast
    with count [of "Suc k"] show False by simp
  qed
  with count answer show ?thesis by blast
qed

lemma insistent_always:
  "\<forall>n. \<exists>result b tc.
        llm_result (llm insistent_world n) = Inr result \<and> tool_use_of result = Inr (Some b)
        \<and> make_tool_call b = Inr tc
        \<and> (\<forall>tr. \<exists>resp tr2 t. handle_tool_call insistent_world tc tr = (Inr resp, tr2)
              \<and> bind_exc (tool_description resp) (assistant_text result) = Inr t)"
proof -
  let ?result = "JObj [(''content'', JArr [tool_use_block ''Eiffel Tower height''])]"
  let ?tc = "fetch_call (JStr ''Eiffel Tower height'')"
  have res: "llm_result (llm insistent_world n) = Inr ?result" for n
    by (simp add: insistent_world_def llm_world_def content_response_def ok_response_def
          llm_result_def bind_exc_def raise_for_status_def http_error_status_def)
  have found: "tool_use_of ?result = Inr (Some (tool_use_block ''Eiffel Tower height''))"
    by (simp add: tool_use_of_def bind_exc_def tool_use_block_def)
  have made: "make_tool_call (tool_use_block ''Eiffel Tower height'') = Inr ?tc"
    by (simp add: make_tool_call_def bind_exc_def tool_use_block_def fetch_call_def)
  have dispatched: "handle_tool_call insistent_world ?tc tr =
      (Inr (error_dict ''MCP server not available''), tr @ [Dispatch ?tc, Health_get])" for tr
    by (simp add: handle_tool_call_def ClaudeClient_check_mcp_server_def get_health_def
          insistent_world_def llm_world_def connection_error_def is_request_exception_def
          fetch_call_def Let_def)
  have joined: "bind_exc (tool_description (error_dict ''MCP server not available''))
      (assistant_text ?result) = Inr (JStr injected_sentence)"
    by (simp add: tool_description_def error_dict_def bind_exc_def assistant_text_def
          tool_use_block_def py_add_def)
  show ?thesis
    using res found made dispatched joined by blast
qed

lemma insistent_key: "api_key (opus ''sk-key'') \<noteq> []"
  by (simp add: opus_def)

theorem recursion_limit_is_the_only_cap_witness:
  "calls is_dispatch (snd (get_final_answer 1000 insistent_world (opus ''sk-key'')
       ''How tall is the Eiffel Tower?'' [])) = 1000
   \<and> fst (get_final_answer (Suc 999) insistent_world (opus ''sk-key'')
       ''How tall is the Eiffel Tower?'' []) = JStr ''No clear answer found''
   \<and> \<not> (\<exists>k. \<forall>limit. calls is_dispatch (snd (get_final_answer limit insistent_world
       (opus ''sk-key'') ''How tall is the Eiffel Tower?'' [])) \<le> k)"
  using recursion_limit_is_the_only_cap [OF insistent_key insistent_always,
      of 1000 "''How tall is the Eiffel Tower?''" "[]", unfolded calls_Nil add_0]
    recursion_limit_is_the_only_cap [OF insistent_key insistent_always,
      of 999 "''How tall is the Eiffel Tower?''" "[]", unfolded calls_Nil add_0]
  by blast

lemma insistent_three:
  "get_final_answer (Suc (Suc (Suc 0))) insistent_world (opus ''sk-key'')
      ''How tall is the Eiffel Tower?'' [] =
     (JStr ''No clear answer found'',
      [Llm_post (make_payload (opus ''sk-key'') [] ''How tall is the Eiffel Tower?''),
       Dispatch (fetch_call (JStr ''Eiffel Tower height'')), Health_get,
       Llm_post (make_payload (opus ''sk-key'')
         [user_turn ''How tall is the Eiffel Tower?'', assistant_turn (JStr injected_sentence)]
         summarize_request),
       Dispatch (fetch_call (JStr ''Eiffel Tower height'')), Health_get,
       Llm_post (make_payload (opus ''sk-key'')
         [user_turn ''How tall is the Eiffel Tower?'', assistant_turn (JStr injected_sentence),
          user_turn summarize_request, assistant_turn (JStr injected_sentence)]
         summarize_request),
       Dispatch (fetch_call (JStr ''Eiffel Tower height'')), Health_get])"
  by (simp add: get_final_answer_def Let_def post_llm_def insistent_world_def llm_world_def
        content_response_def ok_response_def llm_result_def bind_exc_def raise_for_status_def
        http_error_status_def tool_use_of_def tool_use_block_def make_tool_call_def
        handle_tool_call_def ClaudeClient_check_mcp_server_def get_health_def
        connection_error_def is_request_exception_def tool_description_def error_dict_def
        assistant_text_def py_add_def answer_of_def opus_def fetch_call_def)

text \<open>
  C9 fails on "recurses unboundedly": with room for three nested calls, the run against
  a model that always asks for the tool returns after exactly three round-trips.
\<close>

theorem recursion_bounded_counterexample:
  "fst (get_final_answer 3 insistent_world (opus ''sk-key'') ''How tall is the Eiffel Tower?'' []) =
     JStr ''No clear answer found''
   \<and> calls is_dispatch (snd (get_final_answer 3 insistent_world (opus ''sk-key'')
        ''How tall is the Eiffel Tower?'' [])) = 3"
  by (simp add: numeral_3_eq_3 insistent_three del: send_message.simps)

subsection \<open>The conversation history\<close>

lemma llm_requests_append:
  "llm_requests before (a @ b) = llm_requests before a @ llm_requests (before @ a) b"
  by (induction before a rule: llm_requests.induct) simp_all

lemma llm_requests_none:
  "list_all (\<lambda>e. is_health e \<or> is_tool_post e \<or> is_sleep e) rest \<Longrightarrow>
   llm_requests before rest = []"
  by (induction before rest rule: llm_requests.induct) simp_all

lemma llm_requests_dispatch:
  "list_all (\<lambda>e. is_health e \<or> is_tool_post e \<or> is_sleep e) rest \<Longrightarrow>
   llm_requests before (Dispatch tc # rest) = []"
  by (simp add: llm_requests_none)

lemma messages_of_payload [simp]:
  "messages_of (make_payload cfg hist message) = hist @ [user_turn message]"
  by (simp add: messages_of_def make_payload_def)

lemma py_add_str_right:
  "py_add v (JStr s) = Inr r \<Longrightarrow> \<exists>l. v = JStr l \<and> r = JStr (l @ s)"
  by (cases v) (auto simp: py_add_def split: option.splits)

lemma py_add_str_left:
  "py_add (JStr l) v = Inr r \<Longrightarrow> \<exists>d. v = JStr d \<and> r = JStr (l @ d)"
  by (cases v) (auto simp: py_add_def)

lemma tool_description_value:
  assumes "tool_description resp = Inr (JStr d)"
  shows "d = result_description resp"
proof -
  from assms obtain kvs where resp: "resp = JObj kvs"
    by (cases resp) (simp_all add: tool_description_def bind_exc_def)
  show ?thesis
  proof (cases "map_of kvs ''results''")
    case None
    with assms resp show ?thesis
      by (simp add: tool_description_def bind_exc_def result_description_def)
  next
    case (Some r)
    show ?thesis
    proof (cases r)
      case (JArr xs)
      show ?thesis
      proof (cases xs)
        case Nil
        with assms resp Some JArr show ?thesis
          by (simp add: tool_description_def bind_exc_def result_description_def)
      next
        case (Cons x rest)
        with assms resp Some JArr obtain rkvs where "x = JObj rkvs"
          by (cases x) (simp_all add: tool_description_def bind_exc_def)
        with assms resp Some JArr Cons show ?thesis
          by (auto simp: tool_description_def bind_exc_def result_description_def
                split: option.splits json.splits)
      qed
    next
      case (JStr s)
      with assms resp Some show ?thesis
        by (cases s) (simp_all add: tool_description_def bind_exc_def result_description_def)
    next
      case (JObj okvs)
      with assms resp Some show ?thesis
        by (cases okvs) (simp_all add: tool_description_def bind_exc_def result_description_def)
    qed (use assms resp Some in
          \<open>auto simp: tool_description_def bind_exc_def result_description_def split: if_splits\<close>)
  qed
qed

lemma first_tool_use_shape:
  "first_tool_use blocks = Inr (Some b) \<Longrightarrow> \<exists>bkvs rest. blocks = JObj bkvs # rest"
proof (cases blocks)
  case Nil
  assume "first_tool_use blocks = Inr (Some b)"
  with Nil show ?thesis by simp
next
  case (Cons x rest)
  assume "first_tool_use blocks = Inr (Some b)"
  with Cons show ?thesis
    by (cases x) (simp_all add: bind_exc_def)
qed

lemma first_tool_use_strings:
  "first_tool_use (map (\<lambda>c. JStr (f c)) xs) \<noteq> Inr (Some b)"
  by (cases xs) (simp_all add: bind_exc_def)

lemma tool_use_of_shape:
  assumes "tool_use_of result = Inr (Some b)"
  shows "\<exists>kvs bkvs rest. result = JObj kvs \<and> map_of kvs ''content'' = Some (JArr (JObj bkvs # rest))"
proof (cases result)
  case (JObj kvs)
  show ?thesis
  proof (cases "map_of kvs ''content''")
    case None
    with assms JObj show ?thesis by (simp add: tool_use_of_def bind_exc_def)
  next
    case (Some c)
    show ?thesis
    proof (cases c)
      case (JArr blocks)
      with assms JObj Some have "first_tool_use blocks = Inr (Some b)"
        by (simp add: tool_use_of_def bind_exc_def)
      then obtain bkvs rest where "blocks = JObj bkvs # rest"
        using first_tool_use_shape by blast
      with JObj Some JArr show ?thesis by simp
    next
      case (JStr s)
      with assms JObj Some first_tool_use_strings [of "\<lambda>c. [c]" s b] show ?thesis
        by (simp add: tool_use_of_def bind_exc_def)
    next
      case inner: (JObj ckvs)
      with assms JObj Some first_tool_use_strings [of fst ckvs b] show ?thesis
        by (simp add: tool_use_of_def bind_exc_def)
    qed (use assms JObj Some in \<open>simp_all add: tool_use_of_def bind_exc_def\<close>)
  qed
qed (use assms in \<open>simp_all add: tool_use_of_def bind_exc_def split: if_splits\<close>)

lemma assistant_text_value:
  assumes "tool_use_of result = Inr (Some b)"
    and "bind_exc (tool_description resp) (assistant_text result) = Inr t"
  shows "t = JStr (leading_text result @ injected_sentence @ result_description resp)"
proof -
  from assms(1) obtain kvs bkvs rest where result: "result = JObj kvs"
    and content: "map_of kvs ''content'' = Some (JArr (JObj bkvs # rest))"
    using tool_use_of_shape by blast
  from assms(2) obtain descr where descr: "tool_description resp = Inr descr"
    and joined: "assistant_text result descr = Inr t"
    by (auto simp: bind_exc_def split: sum.splits)
  let ?lead = "case map_of bkvs ''text'' of None \<Rightarrow> JStr [] | Some v \<Rightarrow> v"
  from joined result content obtain s where s: "py_add ?lead (JStr injected_sentence) = Inr s"
    and t: "py_add s descr = Inr t"
    by (auto simp: assistant_text_def bind_exc_def split: sum.splits)
  from s obtain l where l: "?lead = JStr l" and s': "s = JStr (l @ injected_sentence)"
    using py_add_str_right by blast
  from t s' obtain d where d: "descr = JStr d" and t': "t = JStr ((l @ injected_sentence) @ d)"
    using py_add_str_left by blast
  have "leading_text result = l"
    using result content l by (auto simp: leading_text_def split: option.splits)
  moreover have "result_description resp = d"
    using descr d tool_description_value by simp
  ultimately show ?thesis using t' by simp
qed


lemma send_message_step:
  assumes key: "api_key cfg \<noteq> []"
  shows "(\<exists>res ext. send_message (Suc depth) w cfg message hist tr =
              (res, (tr @ [Llm_post (make_payload cfg hist message)]) @ ext)
            \<and> (\<forall>before. llm_requests before ext = []))
       \<or> (\<exists>result b tc resp tr2.
              llm_result (llm w (calls is_llm_post tr)) = Inr result
            \<and> tool_use_of result = Inr (Some b)
            \<and> make_tool_call b = Inr tc
            \<and> handle_tool_call w tc (tr @ [Llm_post (make_payload cfg hist message)]) =
                (Inr resp, tr2)
            \<and> send_message (Suc depth) w cfg message hist tr =
                except_exception
                  (send_message depth w cfg summarize_request
                     (hist @ [user_turn message,
                              assistant_turn (JStr (leading_text result @ injected_sentence
                                                     @ result_description resp))]) tr2))"
proof -
  let ?tr1 = "tr @ [Llm_post (make_payload cfg hist message)]"
  have stop: "?thesis" if "send_message (Suc depth) w cfg message hist tr = (res, ?tr1)" for res
  proof -
    from that have "send_message (Suc depth) w cfg message hist tr = (res, ?tr1 @ [])
        \<and> (\<forall>before. llm_requests before [] = [])"
      by (simp del: send_message.simps)
    then show ?thesis by blast
  qed
  show ?thesis
  proof (cases "llm_result (llm w (calls is_llm_post tr))")
    case (Inl e)
    with key show ?thesis by (intro stop) (simp add: Let_def post_llm_def)
  next
    case res: (Inr result)
    show ?thesis
    proof (cases "tool_use_of result")
      case (Inl e)
      with key res show ?thesis by (intro stop) (simp add: Let_def post_llm_def)
    next
      case found: (Inr found_block)
      show ?thesis
      proof (cases found_block)
        case None
        with key res found show ?thesis by (intro stop) (simp add: Let_def post_llm_def)
      next
        case (Some b)
        show ?thesis
        proof (cases "make_tool_call b")
          case (Inl e)
          with key res found Some show ?thesis
            by (intro stop) (simp add: Let_def post_llm_def)
        next
          case made: (Inr tc)
          obtain out tr2 where dispatched: "handle_tool_call w tc ?tr1 = (out, tr2)"
            by (cases "handle_tool_call w tc ?tr1")
          obtain rest where "snd (handle_tool_call w tc ?tr1) = ?tr1 @ Dispatch tc # rest"
            and "list_all (\<lambda>e. is_health e \<or> is_tool_post e \<or> is_sleep e) rest"
            using handle_tool_call_extends by blast
          with dispatched have tr2: "tr2 = ?tr1 @ Dispatch tc # rest"
            and quiet: "\<forall>before. llm_requests before (Dispatch tc # rest) = []"
            by (simp_all add: llm_requests_none)
          have stop2: "?thesis"
            if "send_message (Suc depth) w cfg message hist tr = (res', tr2)" for res'
            using that quiet unfolding tr2 by blast
          show ?thesis
          proof (cases out)
            case (Inl e)
            with key res found Some made dispatched show ?thesis
              by (intro stop2) (simp add: Let_def post_llm_def)
          next
            case resp: (Inr resp)
            show ?thesis
            proof (cases "bind_exc (tool_description resp) (assistant_text result)")
              case (Inl e)
              with key res found Some made dispatched resp show ?thesis
                by (intro stop2) (simp add: Let_def post_llm_def)
            next
              case joined: (Inr t)
              have found': "tool_use_of result = Inr (Some b)"
                using found Some by simp
              have t: "t = JStr (leading_text result @ injected_sentence
                                  @ result_description resp)"
                using found' joined by (rule assistant_text_value)
              have "send_message (Suc depth) w cfg message hist tr =
                  except_exception
                    (send_message depth w cfg summarize_request
                       (hist @ [user_turn message, assistant_turn t]) tr2)"
                using key res found' made dispatched [unfolded resp] joined
                by (rule send_message_round_trip)
              with res found' made dispatched resp t show ?thesis by blast
            qed
          qed
        qed
      qed
    qed
  qed
qed

lemma send_message_requests:
  "\<exists>ext. snd (send_message depth w cfg message hist tr) = tr @ ext
      \<and> (llm_requests tr ext = []
           \<or> (\<exists>rest. llm_requests tr ext = (tr, make_payload cfg hist message) # rest
                \<and> round_trips w ((tr, make_payload cfg hist message) # rest)))"
proof (induction depth arbitrary: message hist tr)
  case 0
  have "snd (send_message 0 w cfg message hist tr) = tr @ [] \<and> llm_requests tr [] = []"
    by simp
  then show ?case by blast
next
  case (Suc depth)
  let ?p = "make_payload cfg hist message"
  let ?tr1 = "tr @ [Llm_post ?p]"
  show ?case
  proof (cases "api_key cfg = []")
    case True
    then have "snd (send_message (Suc depth) w cfg message hist tr) = tr @ []
        \<and> llm_requests tr [] = []"
      by simp
    then show ?thesis by blast
  next
    case False
    from send_message_step [OF False, of depth w message hist tr]
    show ?thesis
    proof (elim disjE exE conjE)
      fix res ext
      assume run: "send_message (Suc depth) w cfg message hist tr = (res, ?tr1 @ ext)"
        and quiet: "\<forall>before. llm_requests before ext = []"
      have "snd (send_message (Suc depth) w cfg message hist tr) = tr @ (Llm_post ?p # ext)"
        using run by (simp del: send_message.simps)
      moreover have "llm_requests tr (Llm_post ?p # ext) = (tr, ?p) # []"
        using quiet by simp
      moreover have "round_trips w ((tr, ?p) # [])" by simp
      ultimately show ?thesis by blast
    next
      fix result b tc resp tr2
      let ?t = "JStr (leading_text result @ injected_sentence @ result_description resp)"
      let ?hist' = "hist @ [user_turn message, assistant_turn ?t]"
      let ?p' = "make_payload cfg ?hist' summarize_request"
      assume res: "llm_result (llm w (calls is_llm_post tr)) = Inr result"
        and found: "tool_use_of result = Inr (Some b)"
        and made: "make_tool_call b = Inr tc"
        and dispatched: "handle_tool_call w tc ?tr1 = (Inr resp, tr2)"
        and step: "send_message (Suc depth) w cfg message hist tr =
            except_exception (send_message depth w cfg summarize_request ?hist' tr2)"
      obtain r0 where "snd (handle_tool_call w tc ?tr1) = ?tr1 @ Dispatch tc # r0"
        and kinds: "list_all (\<lambda>e. is_health e \<or> is_tool_post e \<or> is_sleep e) r0"
        using handle_tool_call_extends by blast
      with dispatched have tr2: "tr2 = ?tr1 @ Dispatch tc # r0" by simp
      from Suc.IH [of summarize_request ?hist' tr2] obtain ext' where
        ext': "snd (send_message depth w cfg summarize_request ?hist' tr2) = tr2 @ ext'"
        and reqs': "llm_requests tr2 ext' = []
            \<or> (\<exists>rest. llm_requests tr2 ext' = (tr2, ?p') # rest
                 \<and> round_trips w ((tr2, ?p') # rest))"
        by blast
      let ?ext = "Llm_post ?p # Dispatch tc # r0 @ ext'"
      have trace: "snd (send_message (Suc depth) w cfg message hist tr) = tr @ ?ext"
        unfolding step using ext' tr2 by simp
      have "llm_requests tr ?ext =
          (tr, ?p) # (llm_requests ?tr1 (Dispatch tc # r0) @ llm_requests (?tr1 @ Dispatch tc # r0) ext')"
        using llm_requests_append [of ?tr1 "Dispatch tc # r0" ext'] by simp
      then have split: "llm_requests tr ?ext = (tr, ?p) # llm_requests tr2 ext'"
        using kinds tr2 by (simp add: llm_requests_none)
      have between: "round_trip_between w (tr, ?p) (tr2, ?p')"
        unfolding round_trip_between_def
        using res found made dispatched by (auto simp del: send_message.simps)
      have "round_trips w ((tr, ?p) # llm_requests tr2 ext')"
        using reqs' between by auto
      with trace split show ?thesis by metis
    qed
  qed
qed


lemma alternates_append:
  "even (length xs) \<Longrightarrow> alternates (xs @ ys) = (alternates xs \<and> alternates ys)"
  by (induction xs rule: alternates.induct) auto

lemma turn_roles [simp]:
  "turn_role (user_turn m) = JStr ''user''" "turn_role (assistant_turn t) = JStr ''assistant''"
  by (simp_all add: turn_role_def user_turn_def assistant_turn_def)

lemma round_trip_alternates:
  assumes "round_trip_between w req req'"
    and "alternates (messages_of (snd req))" and "odd (length (messages_of (snd req)))"
  shows "alternates (messages_of (snd req')) \<and> odd (length (messages_of (snd req')))"
proof -
  from assms(1) obtain history message a where
    ms: "messages_of (snd req) = history @ [user_turn message]"
    and ms': "messages_of (snd req') =
        (history @ [user_turn message, assistant_turn a]) @ [user_turn summarize_request]"
    unfolding round_trip_between_def by blast
  from assms(3) ms have ev: "even (length history)" by simp
  with assms(2) ms have "alternates history" by (simp add: alternates_append)
  with ev ms' show ?thesis by (simp add: alternates_append)
qed

lemma round_trips_alternate:
  "round_trips w (req # rest) \<Longrightarrow> alternates (messages_of (snd req)) \<Longrightarrow>
   odd (length (messages_of (snd req))) \<Longrightarrow>
   list_all alternates (map (\<lambda>r. messages_of (snd r)) (req # rest))"
proof (induction rest arbitrary: req)
  case Nil
  then show ?case by simp
next
  case (Cons req' rest)
  then have "round_trip_between w req req'" and "round_trips w (req' # rest)" by simp_all
  moreover from this(1) Cons.prems have
    "alternates (messages_of (snd req')) \<and> odd (length (messages_of (snd req')))"
    using round_trip_alternates by blast
  ultimately show ?case using Cons.IH [of req'] Cons.prems(2) by simp
qed

lemma get_final_answer_trace:
  "snd (get_final_answer depth w cfg message tr) = snd (send_message depth w cfg message [] tr)"
  by (simp add: get_final_answer_def split: prod.splits sum.splits del: send_message.simps)

text \<open>
  C6 (amended). In every run of \<^verbatim>\<open>get_final_answer\<close>, the first request to the LLM carries
  the query as its only turn, and each later request is the forced summarization request
  of one tool round-trip: it is sent right after the dispatch, and its turns are those of
  the request before it (a history and the message then sent, restated as a user turn),
  one assistant turn whose text is the leading text of the answer to that request, the
  injected sentence and the description of the tool result the dispatcher returned, and
  the summarization request. The restated message is the query for the first round-trip
  and the summarization request for any later one. The turns of every request alternate
  strictly between user and assistant.
\<close>

theorem round_trip_turns:
  "(api_key cfg \<noteq> []
      \<longrightarrow> (\<exists>rest. llm_messages (snd (get_final_answer (Suc depth) w cfg message [])) =
             [user_turn message] # rest))
   \<and> round_trips w (llm_requests [] (snd (get_final_answer depth w cfg message [])))
   \<and> list_all alternates (llm_messages (snd (get_final_answer depth w cfg message [])))"
proof -
  let ?p = "make_payload cfg [] message"
  have shape: "llm_requests [] (snd (get_final_answer d w cfg message [])) = []
      \<or> (\<exists>rest. llm_requests [] (snd (get_final_answer d w cfg message [])) = ([], ?p) # rest
           \<and> round_trips w (([], ?p) # rest))" for d
    using send_message_requests [of d w cfg message "[]" "[]"]
    unfolding get_final_answer_trace by auto
  have first: "\<exists>rest. llm_messages (snd (get_final_answer (Suc depth) w cfg message [])) =
      [user_turn message] # rest" if key: "api_key cfg \<noteq> []"
  proof -
    obtain ext where ext: "snd (send_message (Suc depth) w cfg message [] []) = Llm_post ?p # ext"
    proof -
      from send_message_step [OF key, of depth w message "[]" "[]"]
      show ?thesis
      proof (elim disjE exE conjE)
        fix res ext
        assume "send_message (Suc depth) w cfg message [] [] = (res, ([] @ [Llm_post ?p]) @ ext)"
        then have "snd (send_message (Suc depth) w cfg message [] []) = Llm_post ?p # ext"
          by (simp del: send_message.simps)
        then show ?thesis by (rule that)
      next
        fix result b tc resp tr2
        let ?hist' = "[] @ [user_turn message,
            assistant_turn (JStr (leading_text result @ injected_sentence
                                   @ result_description resp))]"
        assume dispatched: "handle_tool_call w tc ([] @ [Llm_post ?p]) = (Inr resp, tr2)"
          and step: "send_message (Suc depth) w cfg message [] [] =
            except_exception (send_message depth w cfg summarize_request ?hist' tr2)"
        obtain r0 where "snd (handle_tool_call w tc ([] @ [Llm_post ?p])) =
            ([] @ [Llm_post ?p]) @ Dispatch tc # r0"
          using handle_tool_call_extends by blast
        with dispatched have tr2: "tr2 = Llm_post ?p # Dispatch tc # r0" by simp
        obtain ext' where
          "snd (send_message depth w cfg summarize_request ?hist' tr2) = tr2 @ ext'"
          using send_message_requests by blast
        then have "snd (send_message (Suc depth) w cfg message [] []) =
            Llm_post ?p # (Dispatch tc # r0 @ ext')"
          unfolding step tr2 by simp
        then show ?thesis by (rule that)
      qed
    qed
    show ?thesis
      unfolding get_final_answer_trace ext by (simp add: llm_messages_def)
  qed
  have alt: "list_all alternates (llm_messages (snd (get_final_answer depth w cfg message [])))"
    using shape [of depth]
  proof (elim disjE exE conjE)
    assume "llm_requests [] (snd (get_final_answer depth w cfg message [])) = []"
    then show ?thesis by (simp add: llm_messages_def)
  next
    fix rest
    assume reqs: "llm_requests [] (snd (get_final_answer depth w cfg message [])) = ([], ?p) # rest"
      and chain: "round_trips w (([], ?p) # rest)"
    from round_trips_alternate [OF chain] show ?thesis
      unfolding llm_messages_def reqs by simp
  qed
  have chain: "round_trips w (llm_requests [] (snd (get_final_answer depth w cfg message [])))"
    using shape [of depth] by auto
  from first chain alt show ?thesis by blast
qed

lemma twice_run:
  "snd (get_final_answer (Suc (Suc (Suc 0))) twice_world (opus ''sk-key'')
      ''How tall is the Eiffel Tower?'' []) =
     [Llm_post (make_payload (opus ''sk-key'') [] ''How tall is the Eiffel Tower?''),
      Dispatch (fetch_call (JStr ''Eiffel Tower height'')), Health_get,
      Tool_post (fetch_call (JStr ''Eiffel Tower height'')),
      Llm_post (make_payload (opus ''sk-key'')
        [user_turn ''How tall is the Eiffel Tower?'',
         assistant_turn (JStr (''Let me look that up.'' @ injected_sentence
                                @ ''The Eiffel Tower is 330 metres tall.''))]
        summarize_request),
      Dispatch (fetch_call (JStr ''Eiffel Tower height'')), Health_get,
      Tool_post (fetch_call (JStr ''Eiffel Tower height'')),
      Llm_post (make_payload (opus ''sk-key'')
        [user_turn ''How tall is the Eiffel Tower?'',
         assistant_turn (JStr (''Let me look that up.'' @ injected_sentence
                                @ ''The Eiffel Tower is 330 metres tall.'')),
         user_turn summarize_request,
         assistant_turn (JStr (''Let me look that up.'' @ injected_sentence
                                @ ''The Eiffel Tower is 330 metres tall.''))]
        summarize_request)]"
  by (simp add: get_final_answer_def Let_def post_llm_def twice_world_def
        content_response_def ok_response_def llm_result_def bind_exc_def raise_for_status_def
        http_error_status_def tool_use_of_def tool_use_block_def text_block_def
        make_tool_call_def handle_tool_call_def ClaudeClient_check_mcp_server_def get_health_def
        retry_loop.simps [of _ _ _ 0] max_retries_def post_tool_call_def tool_call_attempt_def
        tool_description_def eiffel_results_def
        assistant_text_def py_add_def answer_of_def opus_def fetch_call_def)

theorem round_trip_turns_witness:
  "llm_messages (snd (get_final_answer 3 twice_world (opus ''sk-key'')
        ''How tall is the Eiffel Tower?'' [])) =
     [user_turn ''How tall is the Eiffel Tower?''] #
     [[user_turn ''How tall is the Eiffel Tower?'',
       assistant_turn (JStr (''Let me look that up.'' @ injected_sentence
                              @ ''The Eiffel Tower is 330 metres tall.'')),
       user_turn summarize_request],
      [user_turn ''How tall is the Eiffel Tower?'',
       assistant_turn (JStr (''Let me look that up.'' @ injected_sentence
                              @ ''The Eiffel Tower is 330 metres tall.'')),
       user_turn summarize_request,
       assistant_turn (JStr (''Let me look that up.'' @ injected_sentence
                              @ ''The Eiffel Tower is 330 metres tall.'')),
       user_turn summarize_request]]
   \<and> round_trips twice_world (llm_requests [] (snd (get_final_answer 3 twice_world
        (opus ''sk-key'') ''How tall is the Eiffel Tower?'' [])))
   \<and> list_all alternates (llm_messages (snd (get_final_answer 3 twice_world
        (opus ''sk-key'') ''How tall is the Eiffel Tower?'' [])))"
proof -
  have run: "llm_messages (snd (get_final_answer 3 twice_world (opus ''sk-key'')
        ''How tall is the Eiffel Tower?'' [])) =
     [user_turn ''How tall is the Eiffel Tower?''] #
     [[user_turn ''How tall is the Eiffel Tower?'',
       assistant_turn (JStr (''Let me look that up.'' @ injected_sentence
                              @ ''The Eiffel Tower is 330 metres tall.'')),
       user_turn summarize_request],
      [user_turn ''How tall is the Eiffel Tower?'',
       assistant_turn (JStr (''Let me look that up.'' @ injected_sentence
                              @ ''The Eiffel Tower is 330 metres tall.'')),
       user_turn summarize_request,
       assistant_turn (JStr (''Let me look that up.'' @ injected_sentence
                              @ ''The Eiffel Tower is 330 metres tall.'')),
       user_turn summarize_request]]"
    by (simp add: numeral_3_eq_3 twice_run llm_messages_def del: send_message.simps)
  from round_trip_turns [of "opus ''sk-key''" 3 twice_world "''How tall is the Eiffel Tower?''"]
       run
  show ?thesis by blast
qed

text \<open>
  C6 fails on the restated turn: when the model asks for the tool again in its answer to
  the summarization request, the user turn appended by the second round-trip is that
  summarization request, not the original query.
\<close>

theorem restated_turn_counterexample:
  "llm_messages (snd (get_final_answer 3 twice_world (opus ''sk-key'')
        ''How tall is the Eiffel Tower?'' [])) ! 2 =
     [user_turn ''How tall is the Eiffel Tower?'',
      assistant_turn (JStr (''Let me look that up.'' @ injected_sentence
                             @ ''The Eiffel Tower is 330 metres tall.'')),
      user_turn summarize_request,
      assistant_turn (JStr (''Let me look that up.'' @ injected_sentence
                             @ ''The Eiffel Tower is 330 metres tall.'')),
      user_turn summarize_request]
   \<and> user_turn summarize_request \<noteq> user_turn ''How tall is the Eiffel Tower?''"
  by (simp add: numeral_3_eq_3 twice_run llm_messages_def user_turn_def summarize_request_def
        del: send_message.simps)

end
